theory Spec2Isabelle
  imports Complex_Main
begin

section \<open>Block catalogue (blocks.ts)\<close>

text \<open>The enumeration \<open>BlockType\<close>, in the order of its ordinals 0..50.\<close>

datatype BlockType =
    AIR | GRASS | DIRT | STONE | SAND | WATER | WOOD | LEAVES | BEDROCK
  | COAL_ORE | IRON_ORE | GOLD_ORE | DIAMOND_ORE | SNOW | GLASS | BRICK
  | COBBLESTONE | PLANKS | TORCH
  | RED_SAND | TERRACOTTA | ORANGE_TERRACOTTA | YELLOW_TERRACOTTA
  | RED_TERRACOTTA | BROWN_TERRACOTTA | WHITE_TERRACOTTA
  | GRAVEL | CLAY | PRISMARINE
  | NETHERRACK | SOUL_SAND | GLOWSTONE | NETHER_BRICK | NETHER_QUARTZ_ORE
  | MAGMA | BASALT | BLACKSTONE | CRIMSON_NYLIUM | WARPED_NYLIUM
  | OBSIDIAN | PORTAL
  | END_STONE | END_STONE_BRICKS | PURPUR_BLOCK | CHORUS_PLANT
  | CHORUS_FLOWER | END_PORTAL | DRAGON_EGG
  | CRAFTING_TABLE | CHEST | FURNACE

text \<open>
  \<open>BLOCKS[t].solid\<close> and \<open>BLOCKS[t].transparent\<close>. The catalogue's names and
  colours feed only the colour buffers of the renderer and are left out.
\<close>

record BlockInfo =
  solid :: bool
  transparent :: bool

definition BLOCKS :: "BlockType \<Rightarrow> BlockInfo" where
  "BLOCKS t =
     (if t = AIR \<or> t = WATER \<or> t = TORCH \<or> t = PORTAL \<or> t = END_PORTAL
        then \<lparr>solid = False, transparent = True\<rparr>
      else if t = LEAVES \<or> t = GLASS
        then \<lparr>solid = True, transparent = True\<rparr>
      else \<lparr>solid = True, transparent = False\<rparr>)"

section \<open>Chunk (chunk.ts)\<close>

definition CHUNK_SIZE :: int where "CHUNK_SIZE = 32"
definition CHUNK_HEIGHT :: int where "CHUNK_HEIGHT = 128"

text \<open>
  A chunk object. \<open>blocks\<close> is the \<open>Uint8Array\<close> of
  \<open>CHUNK_SIZE * CHUNK_HEIGHT * CHUNK_SIZE\<close> entries; every value ever stored in it
  is a member of \<open>BlockType\<close>, whose ordinals 0..50 each fit a byte, so the array is
  kept as a list of block types. A torch position is the triple \<open>(x, y, z)\<close>. The
  three.js meshes that hang off a chunk belong to the renderer and are not modelled.
\<close>

record Chunk =
  chunkX :: int
  chunkZ :: int
  blocks :: "BlockType list"
  torchPositions :: "(int \<times> int \<times> int) list"
  needsRebuild :: bool
  isGenerated :: bool

definition newChunk :: "int \<Rightarrow> int \<Rightarrow> Chunk" where
  "newChunk cx cz =
     \<lparr>chunkX = cx, chunkZ = cz,
      blocks = replicate (nat (CHUNK_SIZE * CHUNK_HEIGHT * CHUNK_SIZE)) AIR,
      torchPositions = [], needsRebuild = True, isGenerated = False\<rparr>"

definition getBlockIndex :: "int \<Rightarrow> int \<Rightarrow> int \<Rightarrow> int" where
  "getBlockIndex x y z = y * CHUNK_SIZE * CHUNK_SIZE + z * CHUNK_SIZE + x"

definition Chunk_getBlock :: "Chunk \<Rightarrow> int \<Rightarrow> int \<Rightarrow> int \<Rightarrow> BlockType" where
  "Chunk_getBlock c x y z =
     (if x < 0 \<or> x \<ge> CHUNK_SIZE \<or> y < 0 \<or> y \<ge> CHUNK_HEIGHT \<or> z < 0 \<or> z \<ge> CHUNK_SIZE
        then AIR
      else blocks c ! nat (getBlockIndex x y z))"

definition Chunk_setBlock :: "Chunk \<Rightarrow> int \<Rightarrow> int \<Rightarrow> int \<Rightarrow> BlockType \<Rightarrow> Chunk" where
  "Chunk_setBlock c x y z t =
     (if x < 0 \<or> x \<ge> CHUNK_SIZE \<or> y < 0 \<or> y \<ge> CHUNK_HEIGHT \<or> z < 0 \<or> z \<ge> CHUNK_SIZE
        then c
      else c\<lparr>blocks := (blocks c)[nat (getBlockIndex x y z) := t], needsRebuild := True\<rparr>)"

text \<open>The length every chunk's array has from its constructor on.\<close>

definition chunk_ok :: "Chunk \<Rightarrow> bool" where
  "chunk_ok c = (length (blocks c) = nat (CHUNK_SIZE * CHUNK_HEIGHT * CHUNK_SIZE))"

subsection \<open>Mesh building\<close>

datatype FaceName = Right | Left | Top | Bottom | Front | Back

text \<open>\<open>DIRECTIONS\<close>: the direction vector, the four corners and the name of each face.\<close>

type_synonym Int3 = "int \<times> int \<times> int"

definition DIRECTIONS :: "(Int3 \<times> Int3 list \<times> FaceName) list" where
  "DIRECTIONS =
     [((1, 0, 0), [(1, 0, 0), (1, 1, 0), (1, 1, 1), (1, 0, 1)], Right),
      ((-1, 0, 0), [(0, 0, 1), (0, 1, 1), (0, 1, 0), (0, 0, 0)], Left),
      ((0, 1, 0), [(0, 1, 1), (1, 1, 1), (1, 1, 0), (0, 1, 0)], Top),
      ((0, -1, 0), [(0, 0, 0), (1, 0, 0), (1, 0, 1), (0, 0, 1)], Bottom),
      ((0, 0, 1), [(0, 0, 1), (1, 0, 1), (1, 1, 1), (0, 1, 1)], Front),
      ((0, 0, -1), [(1, 0, 0), (0, 0, 0), (0, 1, 0), (1, 1, 0)], Back)]"

text \<open>\<open>calculateAO\<close>: 0 (full occlusion) to 3, from two side blocks and the corner block.\<close>

definition calculateAO ::
  "int \<Rightarrow> int \<Rightarrow> int \<Rightarrow> Int3 \<Rightarrow> Int3 \<Rightarrow> (int \<Rightarrow> int \<Rightarrow> int \<Rightarrow> BlockType) \<Rightarrow> int" where
  "calculateAO x y z d1 d2 getBlock =
     (case d1 of (d1x, d1y, d1z) \<Rightarrow> case d2 of (d2x, d2y, d2z) \<Rightarrow>
        let side1 = (if solid (BLOCKS (getBlock (x + d1x) (y + d1y) (z + d1z))) then 1 else 0);
            side2 = (if solid (BLOCKS (getBlock (x + d2x) (y + d2y) (z + d2z))) then 1 else 0);
            corner = (if solid (BLOCKS (getBlock (x + d1x + d2x) (y + d1y + d2y) (z + d1z + d2z)))
                      then 1 else 0)
        in if side1 \<noteq> 0 \<and> side2 \<noteq> 0 then 0
           else 3 - (side1 + side2 + corner))"

text \<open>The pairs of offsets \<open>aoOffsets\<close> that \<open>buildMesh\<close> fills in for a face.\<close>

definition aoOffsets :: "FaceName \<Rightarrow> (Int3 \<times> Int3) list" where
  "aoOffsets name =
     (case name of
        Top \<Rightarrow> [((-1, 1, 0), (0, 1, -1)), ((1, 1, 0), (0, 1, -1)),
                 ((1, 1, 0), (0, 1, 1)), ((-1, 1, 0), (0, 1, 1))]
      | Bottom \<Rightarrow> [((-1, -1, 0), (0, -1, 1)), ((1, -1, 0), (0, -1, 1)),
                    ((1, -1, 0), (0, -1, -1)), ((-1, -1, 0), (0, -1, -1))]
      | Front \<Rightarrow> [((-1, 0, 1), (0, -1, 1)), ((1, 0, 1), (0, -1, 1)),
                   ((1, 0, 1), (0, 1, 1)), ((-1, 0, 1), (0, 1, 1))]
      | Back \<Rightarrow> [((1, 0, -1), (0, -1, -1)), ((-1, 0, -1), (0, -1, -1)),
                  ((-1, 0, -1), (0, 1, -1)), ((1, 0, -1), (0, 1, -1))]
      | Right \<Rightarrow> [((1, 0, -1), (1, -1, 0)), ((1, 0, 1), (1, -1, 0)),
                   ((1, 0, 1), (1, 1, 0)), ((1, 0, -1), (1, 1, 0))]
      | Left \<Rightarrow> [((-1, 0, 1), (-1, -1, 0)), ((-1, 0, -1), (-1, -1, 0)),
                  ((-1, 0, -1), (-1, 1, 0)), ((-1, 0, 1), (-1, 1, 0))])"

text \<open>
  The buffers \<open>buildMesh\<close> fills: vertex positions, triangle indices and the
  ambient-occlusion attribute of the solid mesh, positions and indices of the water
  mesh, and the torch list. The normal, colour and uv buffers are filled beside them,
  are never read back, and are left out.
\<close>

record MeshBuffers =
  positions :: "int list"
  indices :: "int list"
  aos :: "real list"
  waterPositions :: "int list"
  waterIndices :: "int list"
  torches :: "Int3 list"

definition emptyBuffers :: MeshBuffers where
  "emptyBuffers = \<lparr>positions = [], indices = [], aos = [], waterPositions = [],
                    waterIndices = [], torches = []\<rparr>"

text \<open>The helper \<open>getBlockAt\<close> of \<open>buildMesh\<close>, a block at a world position.\<close>

definition getBlockAt ::
  "Chunk \<Rightarrow> (int \<Rightarrow> int \<Rightarrow> int \<Rightarrow> BlockType) \<Rightarrow> int \<Rightarrow> int \<Rightarrow> int \<Rightarrow> BlockType" where
  "getBlockAt c getNeighborBlock wx wy wz =
     (let lx = wx - chunkX c * CHUNK_SIZE;
          lz = wz - chunkZ c * CHUNK_SIZE
      in if lx < 0 \<or> lx \<ge> CHUNK_SIZE \<or> lz < 0 \<or> lz \<ge> CHUNK_SIZE
           then getNeighborBlock wx wy wz
         else if wy < 0 \<or> wy \<ge> CHUNK_HEIGHT then AIR
         else Chunk_getBlock c lx wy lz)"

text \<open>The body of the loop over a face's corners, for corner number \<open>i\<close>.\<close>

definition meshCorner ::
  "bool \<Rightarrow> int \<Rightarrow> int \<Rightarrow> int \<Rightarrow> Int3 list \<Rightarrow> int list \<Rightarrow> nat \<Rightarrow> MeshBuffers \<Rightarrow> MeshBuffers" where
  "meshCorner isWater x y z corners aoValues i b =
     (case corners ! i of (c0, c1, c2) \<Rightarrow>
        if isWater
          then b\<lparr>waterPositions := waterPositions b @ [x + c0, y + c1, z + c2]\<rparr>
        else b\<lparr>positions := positions b @ [x + c0, y + c1, z + c2],
               aos := aos b @ [real_of_int (aoValues ! i) / 3]\<rparr>)"

text \<open>The body of the loop over \<open>DIRECTIONS\<close>, for the block \<open>blockType\<close> at local \<open>(x, y, z)\<close>.\<close>

definition meshFace ::
  "Chunk \<Rightarrow> (int \<Rightarrow> int \<Rightarrow> int \<Rightarrow> BlockType) \<Rightarrow> int \<Rightarrow> int \<Rightarrow> int \<Rightarrow> BlockType \<Rightarrow>
   Int3 \<times> Int3 list \<times> FaceName \<Rightarrow> MeshBuffers \<Rightarrow> MeshBuffers" where
  "meshFace c getNeighborBlock x y z blockType face b =
     (case face of ((dx, dy, dz), corners, name) \<Rightarrow>
        let worldOffsetX = chunkX c * CHUNK_SIZE;
            worldOffsetZ = chunkZ c * CHUNK_SIZE;
            isWater = (blockType = WATER);
            wx = worldOffsetX + x;
            wz = worldOffsetZ + z;
            nx = x + dx; ny = y + dy; nz = z + dz;
            neighborBlock =
              (if nx < 0 \<or> nx \<ge> CHUNK_SIZE \<or> nz < 0 \<or> nz \<ge> CHUNK_SIZE
                 then getNeighborBlock (worldOffsetX + nx) ny (worldOffsetZ + nz)
               else if ny < 0 \<or> ny \<ge> CHUNK_HEIGHT then AIR
               else Chunk_getBlock c nx ny nz);
            neighborInfo = BLOCKS neighborBlock
        in if isWater \<and> neighborBlock = WATER then b
           else if solid neighborInfo \<and> \<not> transparent neighborInfo then b
           else
             let aoValues =
                   (if \<not> isWater
                      then map (\<lambda>(d1, d2). calculateAO wx y wz d1 d2 (getBlockAt c getNeighborBlock))
                             (aoOffsets name)
                    else [3, 3, 3, 3]);
                 ndx = int (length (if isWater then waterPositions b else positions b)) div 3;
                 b1 = fold (meshCorner isWater x y z corners aoValues) [0..<length corners] b;
                 quad = [ndx, ndx + 1, ndx + 2, ndx, ndx + 2, ndx + 3]
             in if isWater then b1\<lparr>waterIndices := waterIndices b1 @ quad\<rparr>
                else b1\<lparr>indices := indices b1 @ quad\<rparr>)"

text \<open>The body of the innermost block loop, for the block at local \<open>(x, y, z)\<close>.\<close>

definition meshBlock ::
  "Chunk \<Rightarrow> (int \<Rightarrow> int \<Rightarrow> int \<Rightarrow> BlockType) \<Rightarrow> int \<Rightarrow> int \<Rightarrow> int \<Rightarrow> MeshBuffers \<Rightarrow> MeshBuffers" where
  "meshBlock c getNeighborBlock y z x b =
     (let blockType = Chunk_getBlock c x y z in
      if blockType = AIR then b
      else if blockType = TORCH
        then b\<lparr>torches := torches b @ [(chunkX c * CHUNK_SIZE + x, y, chunkZ c * CHUNK_SIZE + z)]\<rparr>
      else fold (meshFace c getNeighborBlock x y z blockType) DIRECTIONS b)"

text \<open>
  \<open>buildMesh\<close> returns the chunk, with its torch list replaced and its flag cleared,
  and the buffers the two meshes are made from.
\<close>

definition meshBuffers :: "Chunk \<Rightarrow> (int \<Rightarrow> int \<Rightarrow> int \<Rightarrow> BlockType) \<Rightarrow> MeshBuffers" where
  "meshBuffers c getNeighborBlock =
     fold (\<lambda>y. fold (\<lambda>z. fold (meshBlock c getNeighborBlock y z) [0..CHUNK_SIZE - 1])
                     [0..CHUNK_SIZE - 1])
          [0..CHUNK_HEIGHT - 1] emptyBuffers"

definition buildMesh :: "Chunk \<Rightarrow> (int \<Rightarrow> int \<Rightarrow> int \<Rightarrow> BlockType) \<Rightarrow> Chunk \<times> MeshBuffers" where
  "buildMesh c getNeighborBlock =
     (let b = meshBuffers c getNeighborBlock
      in (c\<lparr>torchPositions := torches b, needsRebuild := False\<rparr>, b))"

text \<open>What the block loop adds to the torch list at local \<open>(x, y, z)\<close>.\<close>

definition torchAt :: "Chunk \<Rightarrow> int \<Rightarrow> int \<Rightarrow> int \<Rightarrow> Int3 list" where
  "torchAt c y z x =
     (if Chunk_getBlock c x y z = TORCH
      then [(chunkX c * CHUNK_SIZE + x, y, chunkZ c * CHUNK_SIZE + z)] else [])"


section \<open>Structure registry records (structures.ts)\<close>

text \<open>A loot item is \<open>(type, count)\<close>; a building position is \<open>(x, z, type)\<close>.\<close>

record LootChest =
  chest_x :: int
  chest_y :: int
  chest_z :: int
  items :: "(string \<times> int) list"

record VillageLocation =
  village_x :: int
  village_z :: int
  buildingPositions :: "(int \<times> int \<times> string) list"

text \<open>
  The fields of \<open>StructureGenerator\<close>. \<open>generatedStructures\<close> is the set of chunk
  keys; a key \<open>`${x},${z}`\<close> is kept as the pair \<open>(x, z)\<close> it prints.
\<close>

record StructureGenerator =
  generatedStructures :: "(int \<times> int) set"
  lootChests :: "LootChest list"
  villageLocations :: "VillageLocation list"
  spawnVillageGenerated :: bool

section \<open>World (world.ts)\<close>

datatype Dimension = overworld | end_dimension

text \<open>
  Chunks are objects that the chunk map and the rebuild queue both refer to, so the
  world keeps a store \<open>objs\<close> from references to chunk objects and \<open>nextRef\<close>, the
  reference the next \<open>new Chunk\<close> gets. \<open>chunks\<close> is the \<open>Map\<close> from chunk key to
  chunk, in insertion order (the order \<open>Map.values()\<close> iterates in). An entry of
  \<open>chunksToGenerate\<close> is \<open>(x, z, priority)\<close>. \<open>randomCalls\<close> counts the calls of
  \<open>Math.random()\<close> made so far, the position in the stream of its results. The
  scene and the torch lights belong to the renderer and are not modelled.
\<close>

record World =
  objs :: "nat \<Rightarrow> Chunk"
  nextRef :: nat
  chunks :: "((int \<times> int) \<times> nat) list"
  renderDistance :: int
  currentDimension :: Dimension
  chunksToGenerate :: "(int \<times> int \<times> real) list"
  chunksToRebuild :: "nat list"
  structures :: StructureGenerator
  randomCalls :: nat

text \<open>JavaScript's \<open>%\<close> on integers: the remainder has the sign of the dividend.\<close>

definition js_rem :: "int \<Rightarrow> int \<Rightarrow> int" where
  "js_rem a b = sgn a * (\<bar>a\<bar> mod \<bar>b\<bar>)"

text \<open>\<open>Math.floor(w / CHUNK_SIZE)\<close> and \<open>((w % CHUNK_SIZE) + CHUNK_SIZE) % CHUNK_SIZE\<close>.\<close>

definition chunkCoord :: "int \<Rightarrow> int" where
  "chunkCoord w = \<lfloor>real_of_int w / real_of_int CHUNK_SIZE\<rfloor>"

definition localCoord :: "int \<Rightarrow> int" where
  "localCoord w = js_rem (js_rem w CHUNK_SIZE + CHUNK_SIZE) CHUNK_SIZE"

definition getChunkRef :: "World \<Rightarrow> int \<Rightarrow> int \<Rightarrow> nat option" where
  "getChunkRef W cx cz = map_of (chunks W) (cx, cz)"

definition getChunk :: "World \<Rightarrow> int \<Rightarrow> int \<Rightarrow> Chunk option" where
  "getChunk W cx cz = map_option (objs W) (getChunkRef W cx cz)"

definition World_getBlock :: "World \<Rightarrow> int \<Rightarrow> int \<Rightarrow> int \<Rightarrow> BlockType" where
  "World_getBlock W worldX worldY worldZ =
     (case getChunk W (chunkCoord worldX) (chunkCoord worldZ) of
        None \<Rightarrow> AIR
      | Some c \<Rightarrow>
          if \<not> isGenerated c then AIR
          else Chunk_getBlock c (localCoord worldX) worldY (localCoord worldZ))"

definition markChunkForRebuild :: "World \<Rightarrow> int \<Rightarrow> int \<Rightarrow> World" where
  "markChunkForRebuild W cx cz =
     (case getChunkRef W cx cz of
        None \<Rightarrow> W
      | Some r \<Rightarrow>
          if isGenerated (objs W r)
            then W\<lparr>objs := (objs W)(r := (objs W r)\<lparr>needsRebuild := True\<rparr>)\<rparr>
          else W)"

definition World_setBlock :: "World \<Rightarrow> int \<Rightarrow> int \<Rightarrow> int \<Rightarrow> BlockType \<Rightarrow> World" where
  "World_setBlock W worldX worldY worldZ t =
     (let cx = chunkCoord worldX; cz = chunkCoord worldZ in
      case getChunkRef W cx cz of
        None \<Rightarrow> W
      | Some r \<Rightarrow>
          if \<not> isGenerated (objs W r) then W
          else
            let localX = localCoord worldX;
                localZ = localCoord worldZ;
                W1 = W\<lparr>objs := (objs W)(r := Chunk_setBlock (objs W r) localX worldY localZ t)\<rparr>;
                W2 = (if localX = 0 then markChunkForRebuild W1 (cx - 1) cz else W1);
                W3 = (if localX = CHUNK_SIZE - 1 then markChunkForRebuild W2 (cx + 1) cz else W2);
                W4 = (if localZ = 0 then markChunkForRebuild W3 cx (cz - 1) else W3);
                W5 = (if localZ = CHUNK_SIZE - 1 then markChunkForRebuild W4 cx (cz + 1) else W4)
            in W5)"

subsection \<open>Ray casting\<close>








text \<open>The four edge tests of \<open>setBlock\<close> have the shape \<open>if (b) this.markChunkForRebuild(a, c)\<close>.\<close>

definition markIf :: "bool \<Rightarrow> World \<Rightarrow> int \<Rightarrow> int \<Rightarrow> World" where
  "markIf b W a c = (if b then markChunkForRebuild W a c else W)"


section \<open>What the model takes from outside\<close>

text \<open>
  \<open>mathRandom k\<close> is the result of the \<open>k\<close>-th call of \<open>Math.random()\<close>.
  \<open>lcgMulAdd s\<close> is the 32-bit integer that \<open>&\<close> makes of the double
  \<open>s * 1103515245 + 12345\<close> in \<open>seededRandom\<close> (the product leaves the range in which
  doubles are exact). The six noise fields are the functions \<open>createNoise2D\<close> and
  \<open>createNoise3D\<close> of the simplex-noise package return for the generator's seed.
  \<open>endBlocks c\<close> is the block array the loops of \<open>EndGenerator.generateChunk\<close>
  leave in the chunk \<open>c\<close>; they write through \<open>chunk.setBlock\<close> only and no
  property below looks into them.
\<close>

record Env =
  mathRandom :: "nat \<Rightarrow> real"
  lcgMulAdd :: "int \<Rightarrow> int"
  noise2D :: "real \<Rightarrow> real \<Rightarrow> real"
  noise3D :: "real \<Rightarrow> real \<Rightarrow> real \<Rightarrow> real"
  caveNoise :: "real \<Rightarrow> real \<Rightarrow> real \<Rightarrow> real"
  caveNoise2 :: "real \<Rightarrow> real \<Rightarrow> real \<Rightarrow> real"
  ravinNoise :: "real \<Rightarrow> real \<Rightarrow> real \<Rightarrow> real"
  treeNoise :: "real \<Rightarrow> real \<Rightarrow> real"
  endBlocks :: "Chunk \<Rightarrow> BlockType list"

section \<open>TerrainGenerator (terrain.ts)\<close>

text \<open>
  Numbers that come out of the noise fields are reals. Where \<open>generateChunk\<close> calls
  \<open>Math.random()\<close> it takes the next number of the stream \<open>mathRandom\<close>; the count
  of calls made so far is threaded through beside the chunk.
\<close>

definition SEA_LEVEL :: int where "SEA_LEVEL = 40"
definition BASE_HEIGHT :: int where "BASE_HEIGHT = 45"

text \<open>The loop of \<open>fbm2D\<close>, with \<open>n\<close> octaves still to add; it returns \<open>(value, maxValue)\<close>.\<close>

fun fbmLoop :: "Env \<Rightarrow> real \<Rightarrow> real \<Rightarrow> real \<Rightarrow> nat \<Rightarrow> real \<Rightarrow> real \<Rightarrow> real \<times> real \<Rightarrow> real \<times> real" where
  "fbmLoop env x z persistence 0 amplitude frequency acc = acc"
| "fbmLoop env x z persistence (Suc n) amplitude frequency acc =
     fbmLoop env x z persistence n (amplitude * persistence) (frequency * 2)
       (fst acc + noise2D env (x * frequency) (z * frequency) * amplitude, snd acc + amplitude)"

definition fbm2D :: "Env \<Rightarrow> real \<Rightarrow> real \<Rightarrow> nat \<Rightarrow> real \<Rightarrow> real \<Rightarrow> real" where
  "fbm2D env x z octaves persistence scale =
     (let acc = fbmLoop env x z persistence octaves 1 scale (0, 0) in fst acc / snd acc)"

definition getTerrainHeight :: "Env \<Rightarrow> int \<Rightarrow> int \<Rightarrow> int" where
  "getTerrainHeight env worldX worldZ =
     (let continentalness = fbm2D env (real_of_int worldX) (real_of_int worldZ) 4 0.5 0.001;
          hills = fbm2D env (real_of_int worldX + 1000) (real_of_int worldZ + 1000) 4 0.5 0.008;
          detail = fbm2D env (real_of_int worldX + 2000) (real_of_int worldZ + 2000) 3 0.5 0.03;
          height = real_of_int BASE_HEIGHT + continentalness * 30 + hills * 15 + detail * 5
      in \<lfloor>height\<rfloor>)"

definition getMesaTerracottaLayer :: "int \<Rightarrow> BlockType" where
  "getMesaTerracottaLayer y =
     (let layerPattern =
            [TERRACOTTA, TERRACOTTA, ORANGE_TERRACOTTA, TERRACOTTA, YELLOW_TERRACOTTA,
             TERRACOTTA, RED_TERRACOTTA, TERRACOTTA, BROWN_TERRACOTTA, TERRACOTTA,
             WHITE_TERRACOTTA, TERRACOTTA, ORANGE_TERRACOTTA, YELLOW_TERRACOTTA]
      in layerPattern ! nat (js_rem y (int (length layerPattern))))"

datatype Biome = plains | desert | mountains | forest | mesa | ocean

definition getBiome :: "Env \<Rightarrow> int \<Rightarrow> int \<Rightarrow> Biome" where
  "getBiome env worldX worldZ =
     (let temperature = fbm2D env (real_of_int worldX + 5000) (real_of_int worldZ + 5000) 2 0.5 0.0015;
          moisture = fbm2D env (real_of_int worldX + 6000) (real_of_int worldZ + 6000) 2 0.5 0.0015;
          continentalness = fbm2D env (real_of_int worldX + 7000) (real_of_int worldZ + 7000) 2 0.5 0.001
      in if continentalness < -0.3 then ocean
         else if temperature > 0.4 \<and> moisture < -0.2 then mesa
         else if temperature > 0.3 \<and> moisture < 0 then desert
         else if fbm2D env (real_of_int worldX) (real_of_int worldZ) 2 0.5 0.002 > 0.4 then mountains
         else if moisture > 0.2 then forest
         else plains)"

text \<open>The ore tests on a stone block with \<open>y > 3\<close>; a later test overrides an earlier one.\<close>

definition oreAt :: "Env \<Rightarrow> int \<Rightarrow> int \<Rightarrow> int \<Rightarrow> BlockType" where
  "oreAt env worldX y worldZ =
     (let wx = real_of_int worldX; wy = real_of_int y; wz = real_of_int worldZ;
          b0 = STONE;
          coalNoise = noise3D env (wx * 0.15) (wy * 0.15) (wz * 0.15);
          b1 = (if coalNoise > 0.65 \<and> y < 80 then COAL_ORE else b0);
          ironNoise = noise3D env (wx * 0.12 + 100) (wy * 0.12) (wz * 0.12 + 100);
          b2 = (if ironNoise > 0.7 \<and> y < 64 then IRON_ORE else b1);
          goldNoise = noise3D env (wx * 0.1 + 200) (wy * 0.1) (wz * 0.1 + 200);
          b3 = (if goldNoise > 0.75 \<and> y < 32 then GOLD_ORE else b2);
          diamondNoise = noise3D env (wx * 0.08 + 300) (wy * 0.08) (wz * 0.08 + 300);
          b4 = (if diamondNoise > 0.8 \<and> y < 16 then DIAMOND_ORE else b3)
      in b4)"

text \<open>The value of \<open>isCave\<close> at a block.\<close>

definition isCaveAt :: "Env \<Rightarrow> int \<Rightarrow> int \<Rightarrow> int \<Rightarrow> bool" where
  "isCaveAt env worldX y worldZ =
     (let wx = real_of_int worldX; wy = real_of_int y; wz = real_of_int worldZ;
          caveValue = caveNoise env (wx * 0.03) (wy * 0.05) (wz * 0.03);
          caveValue2 = caveNoise2 env (wx * 0.05) (wy * 0.03) (wz * 0.05);
          deepTunnel = caveNoise env (wx * 0.015 + 500) (wy * 0.02) (wz * 0.015 + 500);
          deepTunnel2 = caveNoise2 env (wx * 0.02 + 500) (wy * 0.015) (wz * 0.02 + 500);
          cavernNoise = caveNoise env (wx * 0.008) (wy * 0.02) (wz * 0.008);
          cavernRoom = (y < 40 \<and> cavernNoise > 0.6);
          ravineNoise = ravinNoise env (wx * 0.02) (wy * 0.1) (wz * 0.02);
          ravineNoise2 = ravinNoise env (wx * 0.03) 0 (wz * 0.03);
          ravine = (\<bar>ravineNoise\<bar> < 0.08 \<and> ravineNoise2 > 0.5 \<and> y < 50);
          isMainCave = (caveValue > 0.5 \<and> caveValue2 > 0.4);
          isDeepTunnel = (y < 45 \<and> deepTunnel > 0.55 \<and> deepTunnel2 > 0.35)
      in isMainCave \<or> isDeepTunnel \<or> cavernRoom \<or> ravine)"

text \<open>
  The body of the loop over \<open>y\<close> in the first pass, up to the call of
  \<open>chunk.setBlock\<close>: the block type for the cell, and the count of \<open>Math.random()\<close>
  calls after it, from the count \<open>k\<close> before it.
\<close>

definition terrainBlock ::
  "Env \<Rightarrow> int \<Rightarrow> int \<Rightarrow> int \<Rightarrow> Biome \<Rightarrow> int \<Rightarrow> nat \<Rightarrow> BlockType \<times> nat" where
  "terrainBlock env worldX worldZ height biome y k =
     (let chosen =
            (if y = 0 then (BEDROCK, k)
             else if y < height - 4 then
               ((if y > 3 then oreAt env worldX y worldZ else STONE), k)
             else if y < height then
               ((if biome = desert then SAND
                 else if biome = mesa then getMesaTerracottaLayer y
                 else if biome = ocean then (if y < height - 2 then STONE else GRAVEL)
                 else DIRT), k)
             else if y = height then
               (if biome = desert then (SAND, k)
                else if biome = mesa then (RED_SAND, k)
                else if biome = ocean then
                  ((if mathRandom env k < 0.3 then CLAY else GRAVEL), Suc k)
                else if height > 70 then (SNOW, k)
                else (GRASS, k))
             else if y \<le> SEA_LEVEL \<and> y > height then (WATER, k)
             else (AIR, k));
          blockType = fst chosen
      in if y > 1 \<and> y < height - 2 \<and> blockType \<noteq> BEDROCK \<and> isCaveAt env worldX y worldZ
           then (AIR, snd chosen)
         else chosen)"

text \<open>
  The state of \<open>generateChunk\<close>: the count of \<open>Math.random()\<close> calls and the chunk.
  \<open>terrainColumn\<close> is the body of the loop over \<open>z\<close> of the first pass.
\<close>

type_synonym GenState = "nat \<times> Chunk"

definition terrainCell :: "Env \<Rightarrow> int \<Rightarrow> int \<Rightarrow> int \<Rightarrow> int \<Rightarrow> int \<Rightarrow> Biome \<Rightarrow> int \<Rightarrow> GenState \<Rightarrow> GenState" where
  "terrainCell env worldX worldZ x z height biome y st =
     (let r = terrainBlock env worldX worldZ height biome y (fst st)
      in (snd r, Chunk_setBlock (snd st) x y z (fst r)))"

definition terrainColumn :: "Env \<Rightarrow> int \<Rightarrow> int \<Rightarrow> GenState \<Rightarrow> GenState" where
  "terrainColumn env x z st =
     (let c = snd st;
          worldX = chunkX c * CHUNK_SIZE + x;
          worldZ = chunkZ c * CHUNK_SIZE + z;
          height = getTerrainHeight env worldX worldZ;
          biome = getBiome env worldX worldZ
      in fold (terrainCell env worldX worldZ x z height biome) [0..CHUNK_HEIGHT - 1] st)"

text \<open>The body of the loops over \<open>ly\<close>, \<open>lz\<close> and \<open>lx\<close> that place leaves.\<close>

definition leafCell :: "int \<Rightarrow> int \<Rightarrow> int \<Rightarrow> int \<Rightarrow> int \<Rightarrow> int \<Rightarrow> Chunk \<Rightarrow> Chunk" where
  "leafCell x leavesStart z lx lz ly c =
     (let leavesRadius = 2;
          dist = sqrt (real_of_int (lx * lx + lz * lz + (ly - 1) * (ly - 1)))
      in if dist \<le> real_of_int leavesRadius + 0.5 then
           (let nx = x + lx; ny = leavesStart + ly; nz = z + lz in
            if nx \<ge> 0 \<and> nx < CHUNK_SIZE \<and> ny < CHUNK_HEIGHT \<and> nz \<ge> 0 \<and> nz < CHUNK_SIZE then
              (if Chunk_getBlock c nx ny nz = AIR then Chunk_setBlock c nx ny nz LEAVES else c)
            else c)
         else c)"

definition generateTree :: "Env \<Rightarrow> int \<Rightarrow> int \<Rightarrow> int \<Rightarrow> GenState \<Rightarrow> GenState" where
  "generateTree env x y z st =
     (let trunkHeight = 4 + \<lfloor>mathRandom env (fst st) * 3\<rfloor>;
          c1 = fold (\<lambda>ty c. if y + ty < CHUNK_HEIGHT then Chunk_setBlock c x (y + ty) z WOOD else c)
                 [0..trunkHeight - 1] (snd st);
          leavesStart = y + trunkHeight - 2;
          leavesRadius = 2;
          c2 = fold (\<lambda>lx. fold (\<lambda>lz. fold (leafCell x leavesStart z lx lz) [0..leavesRadius + 1])
                                [- leavesRadius..leavesRadius])
                 [- leavesRadius..leavesRadius] c1
      in (Suc (fst st), c2))"

text \<open>The body of the loop over \<open>z\<close> of the second pass.\<close>

definition treeColumn :: "Env \<Rightarrow> int \<Rightarrow> int \<Rightarrow> GenState \<Rightarrow> GenState" where
  "treeColumn env x z st =
     (let c = snd st;
          worldX = chunkX c * CHUNK_SIZE + x;
          worldZ = chunkZ c * CHUNK_SIZE + z;
          biome = getBiome env worldX worldZ
      in if biome = desert then st
         else
           let treeChance = (if biome = forest then 0.03 else 0.01);
               treeValue = (treeNoise env (real_of_int worldX * 0.5) (real_of_int worldZ * 0.5) + 1) / 2
           in if treeValue < treeChance then
                (let groundY =
                       (case find (\<lambda>y. Chunk_getBlock c x y z = GRASS \<or> Chunk_getBlock c x y z = DIRT)
                                  (rev [SEA_LEVEL + 1..CHUNK_HEIGHT - 1]) of
                          None \<Rightarrow> -1
                        | Some y \<Rightarrow> y)
                 in if groundY > 0 then generateTree env x (groundY + 1) z st else st)
              else st)"

definition generateChunk :: "Env \<Rightarrow> GenState \<Rightarrow> GenState" where
  "generateChunk env st =
     (let st1 = fold (\<lambda>x. fold (terrainColumn env x) [0..CHUNK_SIZE - 1]) [0..CHUNK_SIZE - 1] st;
          st2 = fold (\<lambda>x. fold (treeColumn env x) [2..CHUNK_SIZE - 2 - 1]) [2..CHUNK_SIZE - 2 - 1] st1
      in (fst st2, (snd st2)\<lparr>isGenerated := True, needsRebuild := True\<rparr>))"

text \<open>\<open>holds h B c\<close>: the chunk has its full array and the block \<open>B\<close> at local (0, h, 0).\<close>

definition holds :: "int \<Rightarrow> BlockType \<Rightarrow> Chunk \<Rightarrow> bool" where
  "holds h B c = (chunk_ok c \<and> Chunk_getBlock c 0 h 0 = B)"

section \<open>StructureGenerator (structures.ts)\<close>

text \<open>
  \<open>seededRandom\<close>: the closure's state after one more call, and the number that call
  returns. \<open>& 0x7fffffff\<close> keeps the low 31 bits.
\<close>

definition lcgNext :: "Env \<Rightarrow> int \<Rightarrow> int" where
  "lcgNext env seed = lcgMulAdd env seed mod 2147483648"

definition lcgValue :: "int \<Rightarrow> real" where
  "lcgValue seed = real_of_int seed / 2147483647"

definition shouldGenerateStructure :: "Env \<Rightarrow> int \<Rightarrow> int \<Rightarrow> real \<Rightarrow> int \<Rightarrow> bool" where
  "shouldGenerateStructure env cx cz frequency seed =
     (lcgValue (lcgNext env (cx * 73856093 + cz * 19349663 + seed)) < frequency)"

text \<open>
  Statements in sequence, \<open>for (let i = a; i <= b; i++)\<close>, a call of
  \<open>this.world.setBlock\<close>, \<open>this.lootChests.push\<close>, and a draw from \<open>Math.random()\<close>.
\<close>

definition doAll :: "('s \<Rightarrow> 's) list \<Rightarrow> 's \<Rightarrow> 's" where
  "doAll steps s = fold (\<lambda>f. f) steps s"

definition forRange :: "int \<Rightarrow> int \<Rightarrow> (int \<Rightarrow> 's \<Rightarrow> 's) \<Rightarrow> 's \<Rightarrow> 's" where
  "forRange a b body s = fold body [a..b] s"

definition place :: "int \<Rightarrow> int \<Rightarrow> int \<Rightarrow> BlockType \<Rightarrow> World \<Rightarrow> World" where
  "place x y z t W = World_setBlock W x y z t"

definition pushLoot :: "LootChest \<Rightarrow> World \<Rightarrow> World" where
  "pushLoot chest W =
     W\<lparr>structures := (structures W)\<lparr>lootChests := lootChests (structures W) @ [chest]\<rparr>\<rparr>"

definition nextRandom :: "Env \<Rightarrow> World \<Rightarrow> real" where
  "nextRandom env W = mathRandom env (randomCalls W)"

definition drawn :: "World \<Rightarrow> World" where
  "drawn W = W\<lparr>randomCalls := Suc (randomCalls W)\<rparr>"

text \<open>
  \<open>for (let ty = hi; ty > lo; ty--) { if (p(getBlock(x, ty, z))) { y = ty; break; } }\<close>
  with \<open>y\<close> starting at \<open>dflt\<close>.
\<close>

definition scanDown :: "World \<Rightarrow> int \<Rightarrow> int \<Rightarrow> int \<Rightarrow> int \<Rightarrow> (BlockType \<Rightarrow> bool) \<Rightarrow> int \<Rightarrow> int" where
  "scanDown W x z hi lo p dflt =
     (case find (\<lambda>ty. p (World_getBlock W x ty z)) (rev [lo + 1..hi]) of
        None \<Rightarrow> dflt
      | Some ty \<Rightarrow> ty)"

definition notAirOrWater :: "BlockType \<Rightarrow> bool" where
  "notAirOrWater b = (b \<noteq> AIR \<and> b \<noteq> WATER)"

subsection \<open>Desert temple\<close>

text \<open>The part of \<open>tryGenerateDesertTemple\<close> after \<open>if (y < 0) return\<close>.\<close>

definition buildDesertTemple :: "int \<Rightarrow> int \<Rightarrow> int \<Rightarrow> World \<Rightarrow> World" where
  "buildDesertTemple x y z =
     (let sandstone = TERRACOTTA; orange = ORANGE_TERRACOTTA in
        doAll
          [forRange (-4) 4 (\<lambda>dx. forRange (-4) 4 (\<lambda>dz. doAll
             [place (x + dx) y (z + dz) sandstone,
              place (x + dx) (y + 1) (z + dz) sandstone])),
           forRange 2 6 (\<lambda>dy. doAll
             [forRange (-4) 4 (\<lambda>dx. doAll
                [place (x + dx) (y + dy) (z - 4) sandstone,
                 place (x + dx) (y + dy) (z + 4) sandstone]),
              forRange (-4) 4 (\<lambda>dz. doAll
                [place (x - 4) (y + dy) (z + dz) sandstone,
                 place (x + 4) (y + dy) (z + dz) sandstone])]),
           forRange 2 4 (\<lambda>dy. doAll
             [place x (y + dy) (z - 4) AIR,
              place (x - 1) (y + dy) (z - 4) AIR,
              place (x + 1) (y + dy) (z - 4) AIR]),
           forRange (-4) 4 (\<lambda>dx. forRange (-4) 4 (\<lambda>dz.
              place (x + dx) (y + 7) (z + dz) sandstone)),
           forRange 0 2 (\<lambda>level.
              let size = 2 - level in
              forRange (- size) size (\<lambda>dx. forRange (- size) size (\<lambda>dz.
                place (x + dx) (y + 8 + level) (z + dz) orange))),
           forRange (-3) 3 (\<lambda>dx. forRange (-3) 3 (\<lambda>dz. forRange 2 6 (\<lambda>dy.
              place (x + dx) (y + dy) (z + dz) AIR))),
           forRange (-2) 2 (\<lambda>dx. forRange (-2) 2 (\<lambda>dz. forRange (-5) (-1) (\<lambda>dy.
              place (x + dx) (y + dy) (z + dz) AIR))),
           place x (y - 4) z GOLD_ORE,
           pushLoot \<lparr>chest_x = x, chest_y = y - 4, chest_z = z,
                     items = [(''diamond'', 3), (''gold_ingot'', 8), (''iron_ingot'', 12),
                              (''emerald'', 5)]\<rparr>,
           place x (y - 3) z STONE])"


definition tryGenerateDesertTemple :: "int \<Rightarrow> int \<Rightarrow> World \<Rightarrow> World" where
  "tryGenerateDesertTemple x z W =
     (let y = scanDown W x z 80 20 (\<lambda>b. b = SAND) (-1) in
      if y < 0 then W else buildDesertTemple x y z W)"

subsection \<open>Shipwreck\<close>

text \<open>
  The scan \<open>for (let ty = 60; ty > 10; ty--)\<close> of \<open>tryGenerateShipwreck\<close>, from \<open>ty\<close>
  on with the current \<open>waterSurface\<close>; it returns \<open>(waterSurface, oceanFloor)\<close>.
\<close>

function shipScan :: "World \<Rightarrow> int \<Rightarrow> int \<Rightarrow> int \<Rightarrow> int \<Rightarrow> int \<times> int" where
  "shipScan W x z ty waterSurface =
     (if ty > 10 then
        (let block = World_getBlock W x ty z;
             waterSurface' = (if block = WATER \<and> waterSurface < 0 then ty else waterSurface)
         in if waterSurface' > 0 \<and> block \<noteq> WATER \<and> block \<noteq> AIR then (waterSurface', ty)
            else shipScan W x z (ty - 1) waterSurface')
      else (waterSurface, -1))"
  by pat_completeness auto
termination
  by (relation "measure (\<lambda>(W, x, z, ty, waterSurface). nat (ty - 10))") auto

text \<open>
  \<open>World.setBlock\<close> called with a \<open>worldX\<close> that is not an integer, as the hull loop
  does: the chunk is found from \<open>Math.floor(worldX / CHUNK_SIZE)\<close>, the local x is not
  an integer either, so \<open>Chunk.setBlock\<close> passes its range check for a \<open>y\<close> in range,
  stores at a non-integer index of the typed array, which stores nothing, and sets
  \<open>needsRebuild\<close>; the local x is neither 0 nor 31, the tests on the local z remain.
\<close>

definition World_setBlock_fractional :: "World \<Rightarrow> real \<Rightarrow> int \<Rightarrow> int \<Rightarrow> BlockType \<Rightarrow> World" where
  "World_setBlock_fractional W worldX worldY worldZ t =
     (let cx = \<lfloor>worldX / real_of_int CHUNK_SIZE\<rfloor>; cz = chunkCoord worldZ in
      case getChunkRef W cx cz of
        None \<Rightarrow> W
      | Some r \<Rightarrow>
          if \<not> isGenerated (objs W r) then W
          else
            let localZ = localCoord worldZ;
                c = objs W r;
                c' = (if worldY < 0 \<or> worldY \<ge> CHUNK_HEIGHT then c else c\<lparr>needsRebuild := True\<rparr>);
                W1 = W\<lparr>objs := (objs W)(r := c')\<rparr>;
                W4 = markIf (localZ = 0) W1 cx (cz - 1);
                W5 = markIf (localZ = CHUNK_SIZE - 1) W4 cx (cz + 1)
            in W5)"

definition placeNum :: "real \<Rightarrow> int \<Rightarrow> int \<Rightarrow> BlockType \<Rightarrow> World \<Rightarrow> World" where
  "placeNum x y z t W =
     (if x = real_of_int \<lfloor>x\<rfloor> then World_setBlock W \<lfloor>x\<rfloor> y z t
      else World_setBlock_fractional W x y z t)"

text \<open>
  One pass of the loop over \<open>dz\<close> that lays the hull. \<open>dx\<close> runs over the numbers
  \<open>-width, -width + 1, ...\<close> up to \<open>width\<close>, and \<open>width\<close> is an integer only when
  \<open>dz\<close> is a multiple of 3.
\<close>

definition hullRow :: "int \<Rightarrow> int \<Rightarrow> int \<Rightarrow> int \<Rightarrow> World \<Rightarrow> World" where
  "hullRow x y z dz W =
     (let width = max 1 (3 - \<bar>real_of_int dz\<bar> / 3);
          heightOffset = \<lfloor>\<bar>real_of_int dz\<bar> * 0.3\<rfloor>;
          dxs = map (\<lambda>k. - width + real k) [0..<nat (\<lfloor>2 * width\<rfloor> + 1)]
      in fold (\<lambda>dx. doAll
           [placeNum (real_of_int x + dx) (y + 1 + heightOffset) (z + dz) WOOD,
            (\<lambda>W. if \<bar>dx\<bar> = real_of_int \<lfloor>width\<rfloor>
                  then doAll
                    [placeNum (real_of_int x + dx) (y + 2 + heightOffset) (z + dz) PLANKS,
                     placeNum (real_of_int x + dx) (y + 3 + heightOffset) (z + dz) PLANKS] W
                  else W)]) dxs W)"

definition shipwreckLoot :: "int \<Rightarrow> int \<Rightarrow> int \<Rightarrow> LootChest" where
  "shipwreckLoot x y z =
     \<lparr>chest_x = x, chest_y = y + 2, chest_z = z - 3,
      items = [(''gold_ingot'', 5), (''iron_ingot'', 8), (''diamond'', 1), (''emerald'', 3),
               (''trident'', 1)]\<rparr>"

text \<open>The part of \<open>tryGenerateShipwreck\<close> after the two early returns, with \<open>y = oceanFloor\<close>.\<close>

definition buildShipwreck :: "int \<Rightarrow> int \<Rightarrow> int \<Rightarrow> World \<Rightarrow> World" where
  "buildShipwreck x y z =
     (let wood = WOOD; planks = PLANKS in
      doAll
        [forRange (-6) 6 (hullRow x y z),
         forRange 1 5 (\<lambda>dy. place x (y + dy + 2) z wood),
         forRange (-1) 1 (\<lambda>dx. forRange (-1) 1 (\<lambda>dz. place (x + dx) (y + 8) (z + dz) planks)),
         place x (y + 2) (z - 3) GOLD_ORE,
         pushLoot (shipwreckLoot x y z)])"

definition tryGenerateShipwreck :: "int \<Rightarrow> int \<Rightarrow> World \<Rightarrow> World" where
  "tryGenerateShipwreck x z W =
     (case shipScan W x z 60 (-1) of (waterSurface, oceanFloor) \<Rightarrow>
        if oceanFloor < 0 \<or> waterSurface < 0 then W
        else if waterSurface - oceanFloor < 5 then W
        else buildShipwreck x oceanFloor z W)"

subsection \<open>Ruined portal\<close>

definition buildRuinedPortal :: "Env \<Rightarrow> int \<Rightarrow> int \<Rightarrow> int \<Rightarrow> World \<Rightarrow> World" where
  "buildRuinedPortal env x y z =
     (let obsidian = BEDROCK; netherBlock = BRICK in
        doAll
          [forRange (-2) 2 (\<lambda>dx. forRange (-2) 2 (\<lambda>dz W.
             if nextRandom env W < 0.4 then place (x + dx) y (z + dz) netherBlock (drawn W)
             else drawn W)),
           place (x - 2) (y + 1) z obsidian,
           place (x - 2) (y + 2) z obsidian,
           place (x - 2) (y + 3) z obsidian,
           place (x - 2) (y + 4) z obsidian,
           place (x + 2) (y + 1) z obsidian,
           place (x + 2) (y + 2) z obsidian,
           place (x - 1) (y + 5) z obsidian,
           place x (y + 5) z obsidian,
           place (x + 1) (y + 1) (z - 1) GOLD_ORE,
           pushLoot \<lparr>chest_x = x + 1, chest_y = y + 1, chest_z = z - 1,
                     items = [(''gold_ingot'', 12), (''obsidian'', 4),
                              (''flint_and_steel'', 1)]\<rparr>])"


definition tryGenerateRuinedPortal :: "Env \<Rightarrow> int \<Rightarrow> int \<Rightarrow> World \<Rightarrow> World" where
  "tryGenerateRuinedPortal env x z W =
     (let y = scanDown W x z 80 20 notAirOrWater (-1) in
      if y < 0 then W else buildRuinedPortal env x y z W)"

subsection \<open>Dungeon\<close>

definition buildDungeon :: "Env \<Rightarrow> int \<Rightarrow> int \<Rightarrow> int \<Rightarrow> World \<Rightarrow> World" where
  "buildDungeon env x y z =
     (let cobble = COBBLESTONE; mossy = STONE in
        doAll
          [forRange (-3) 3 (\<lambda>dx. forRange (-3) 3 (\<lambda>dz. forRange 0 4 (\<lambda>dy.
             place (x + dx) (y - dy) (z + dz) AIR))),
           forRange (-3) 3 (\<lambda>dx. forRange (-3) 3 (\<lambda>dz W.
             place (x + dx) (y - 5) (z + dz) (if nextRandom env W < 0.5 then cobble else mossy)
               (drawn W))),
           forRange (-4) 0 (\<lambda>dy. doAll
             [forRange (-3) 3 (\<lambda>dx. doAll
                [place (x + dx) (y + dy) (z - 3) cobble,
                 place (x + dx) (y + dy) (z + 3) cobble]),
              forRange (-3) 3 (\<lambda>dz. doAll
                [place (x - 3) (y + dy) (z + dz) cobble,
                 place (x + 3) (y + dy) (z + dz) cobble])]),
           forRange (-3) 3 (\<lambda>dx. forRange (-3) 3 (\<lambda>dz. place (x + dx) (y + 1) (z + dz) cobble)),
           place x (y - 3) z COAL_ORE,
           place (x - 2) (y - 4) z DIAMOND_ORE,
           place (x + 2) (y - 4) z DIAMOND_ORE,
           pushLoot \<lparr>chest_x = x - 2, chest_y = y - 4, chest_z = z,
                     items = [(''iron_ingot'', 6), (''gold_ingot'', 3), (''bread'', 4),
                              (''redstone'', 8)]\<rparr>,
           pushLoot \<lparr>chest_x = x + 2, chest_y = y - 4, chest_z = z,
                     items = [(''diamond'', 2), (''golden_apple'', 1),
                              (''enchanted_book'', 1)]\<rparr>,
           (\<lambda>W.
              let surfaceY =
                    (case find (\<lambda>ty. World_getBlock W x ty (z - 4) = AIR
                                     \<or> World_getBlock W x ty (z - 4) = WATER) [y..79] of
                       None \<Rightarrow> y
                     | Some ty \<Rightarrow> ty - 1)
              in forRange 0 (surfaceY - y) (\<lambda>step. doAll
                   [place x (y + step) (z - 3 - step) AIR,
                    place x (y + step + 1) (z - 3 - step) AIR,
                    place (x - 1) (y + step) (z - 3 - step) cobble,
                    place (x + 1) (y + step) (z - 3 - step) cobble]) W)])"


definition tryGenerateDungeon :: "Env \<Rightarrow> int \<Rightarrow> int \<Rightarrow> World \<Rightarrow> World" where
  "tryGenerateDungeon env x z W =
     (let y = scanDown W x z 40 10 (\<lambda>b. b = STONE) (-1) in
      if y < 0 then W else buildDungeon env x y z W)"

subsection \<open>Village\<close>

definition generateVillageWell :: "int \<Rightarrow> int \<Rightarrow> int \<Rightarrow> World \<Rightarrow> World" where
  "generateVillageWell x y z =
     (let cobble = COBBLESTONE in
      doAll
        [forRange 0 2 (\<lambda>dy. doAll
           [place (x - 1) (y + dy) (z - 1) cobble,
            place (x + 1) (y + dy) (z - 1) cobble,
            place (x - 1) (y + dy) (z + 1) cobble,
            place (x + 1) (y + dy) (z + 1) cobble]),
         forRange (-1) 1 (\<lambda>dx. forRange (-1) 1 (\<lambda>dz. place (x + dx) (y + 3) (z + dz) PLANKS)),
         place x y z WATER,
         place x (y - 1) z WATER,
         place x (y - 2) z WATER,
         place (x - 1) (y + 4) (z - 1) WOOD,
         place (x + 1) (y + 4) (z + 1) WOOD])"

definition generateVillageHouse :: "int \<Rightarrow> int \<Rightarrow> int \<Rightarrow> World \<Rightarrow> World" where
  "generateVillageHouse x y z =
     (let planks = PLANKS; wood = WOOD; cobble = COBBLESTONE in
      doAll
        [forRange (-2) 2 (\<lambda>dx. forRange (-2) 2 (\<lambda>dz. place (x + dx) y (z + dz) cobble)),
         forRange 1 3 (\<lambda>dy. doAll
           [forRange (-2) 2 (\<lambda>dx. doAll
              [place (x + dx) (y + dy) (z - 2) planks,
               place (x + dx) (y + dy) (z + 2) planks]),
            forRange (-2) 2 (\<lambda>dz. doAll
              [place (x - 2) (y + dy) (z + dz) planks,
               place (x + 2) (y + dy) (z + dz) planks])]),
         forRange 1 4 (\<lambda>dy. doAll
           [place (x - 2) (y + dy) (z - 2) wood,
            place (x + 2) (y + dy) (z - 2) wood,
            place (x - 2) (y + dy) (z + 2) wood,
            place (x + 2) (y + dy) (z + 2) wood]),
         place x (y + 1) (z - 2) AIR,
         place x (y + 2) (z - 2) AIR,
         place x (y + 2) (z + 2) GLASS,
         forRange (-1) 1 (\<lambda>dx. forRange (-1) 1 (\<lambda>dz. forRange 1 3 (\<lambda>dy.
           place (x + dx) (y + dy) (z + dz) AIR))),
         forRange (-3) 3 (\<lambda>dx. doAll
           [place (x + dx) (y + 4) (z - 2) planks,
            place (x + dx) (y + 4) (z + 2) planks,
            place (x + dx) (y + 4) (z - 1) planks,
            place (x + dx) (y + 4) (z + 1) planks,
            place (x + dx) (y + 4) z planks]),
         forRange (-2) 2 (\<lambda>dx. place (x + dx) (y + 5) z planks),
         place x (y + 2) z TORCH])"

definition generateVillageFarm :: "int \<Rightarrow> int \<Rightarrow> int \<Rightarrow> World \<Rightarrow> World" where
  "generateVillageFarm x y z =
     (let wood = WOOD in
      doAll
        [forRange (-3) 3 (\<lambda>dx. doAll
           [place (x + dx) (y + 1) (z - 3) wood,
            place (x + dx) (y + 1) (z + 3) wood]),
         forRange (-3) 3 (\<lambda>dz. doAll
           [place (x - 3) (y + 1) (z + dz) wood,
            place (x + 3) (y + 1) (z + dz) wood]),
         forRange (-2) 2 (\<lambda>dx. forRange (-2) 2 (\<lambda>dz. place (x + dx) y (z + dz) DIRT)),
         place x y z WATER,
         place x (y + 1) (z - 3) AIR])"

definition generateVillageChurch :: "int \<Rightarrow> int \<Rightarrow> int \<Rightarrow> World \<Rightarrow> World" where
  "generateVillageChurch x y z =
     (let cobble = COBBLESTONE; planks = PLANKS in
      doAll
        [forRange (-3) 3 (\<lambda>dx. forRange (-4) 4 (\<lambda>dz. place (x + dx) y (z + dz) cobble)),
         forRange 1 5 (\<lambda>dy. doAll
           [forRange (-3) 3 (\<lambda>dx. doAll
              [place (x + dx) (y + dy) (z - 4) cobble,
               place (x + dx) (y + dy) (z + 4) cobble]),
            forRange (-4) 4 (\<lambda>dz. doAll
              [place (x - 3) (y + dy) (z + dz) cobble,
               place (x + 3) (y + dy) (z + dz) cobble])]),
         forRange (-2) 2 (\<lambda>dx. forRange (-3) 3 (\<lambda>dz. forRange 1 4 (\<lambda>dy.
           place (x + dx) (y + dy) (z + dz) AIR))),
         place x (y + 1) (z - 4) AIR,
         place x (y + 2) (z - 4) AIR,
         place (x - 3) (y + 3) z GLASS,
         place (x + 3) (y + 3) z GLASS,
         forRange (-4) 4 (\<lambda>dx. forRange (-5) 5 (\<lambda>dz. place (x + dx) (y + 6) (z + dz) planks)),
         forRange 6 10 (\<lambda>dy. doAll
           [place (x - 1) (y + dy) (z + 2) cobble,
            place (x + 1) (y + dy) (z + 2) cobble,
            place (x - 1) (y + dy) (z + 4) cobble,
            place (x + 1) (y + dy) (z + 4) cobble]),
         place x (y + 9) (z + 3) GOLD_ORE,
         forRange (-1) 1 (\<lambda>dx. forRange 2 4 (\<lambda>dz. place (x + dx) (y + 11) (z + dz) planks)),
         place (x - 2) (y + 3) z TORCH,
         place (x + 2) (y + 3) z TORCH])"

definition generateVillageBlacksmith :: "int \<Rightarrow> int \<Rightarrow> int \<Rightarrow> World \<Rightarrow> World" where
  "generateVillageBlacksmith x y z =
     (let cobble = COBBLESTONE; planks = PLANKS in
      doAll
        [forRange (-3) 3 (\<lambda>dx. forRange (-2) 2 (\<lambda>dz. place (x + dx) y (z + dz) cobble)),
         forRange 1 3 (\<lambda>dy. doAll
           [forRange (-3) 3 (\<lambda>dx. doAll
              [place (x + dx) (y + dy) (z - 2) cobble,
               place (x + dx) (y + dy) (z + 2) cobble]),
            forRange (-2) 2 (\<lambda>dz. doAll
              [place (x - 3) (y + dy) (z + dz) cobble,
               place (x + 3) (y + dy) (z + dz) cobble])]),
         forRange (-2) 2 (\<lambda>dx. forRange (-1) 1 (\<lambda>dz. forRange 1 2 (\<lambda>dy.
           place (x + dx) (y + dy) (z + dz) AIR))),
         place x (y + 1) (z - 2) AIR,
         place x (y + 2) (z - 2) AIR,
         place (x + 2) (y + 1) z BRICK,
         place (x + 2) (y + 1) (z + 1) BRICK,
         place (x + 2) (y + 2) z MAGMA,
         forRange (-4) 4 (\<lambda>dx. forRange (-3) 3 (\<lambda>dz. place (x + dx) (y + 4) (z + dz) planks)),
         place (x - 2) (y + 1) z CHEST,
         place x (y + 2) z TORCH])"

text \<open>
  The loop \<open>while (buildingDist < pathLength - 4)\<close> of \<open>tryGenerateVillage\<close> for the
  path direction \<open>(ddx, ddz)\<close>. Its state is the world, the building positions of
  the village so far and the state of the closure \<open>rand\<close>. \<open>villageBuilding\<close> is the
  body of the loop; it returns the next \<open>buildingDist\<close> and the next state.
\<close>

type_synonym VillageWalk = "World \<times> (int \<times> int \<times> string) list \<times> int"

definition villageBuilding ::
  "Env \<Rightarrow> int \<Rightarrow> int \<Rightarrow> int \<Rightarrow> int \<Rightarrow> int \<Rightarrow> int \<Rightarrow> VillageWalk \<Rightarrow> int \<times> VillageWalk" where
  "villageBuilding env centerX centerZ groundY ddx ddz buildingDist st =
     (let W = fst st; blds = fst (snd st); s = snd (snd st);
          s1 = (if ddz \<noteq> 0 then s else lcgNext env s);
          buildX = centerX + ddx * buildingDist
                   + (if ddz \<noteq> 0 then 0 else if lcgValue s1 > 0.5 then 5 else -5);
          s2 = (if ddx \<noteq> 0 then s1 else lcgNext env s1);
          buildZ = centerZ + ddz * buildingDist
                   + (if ddx \<noteq> 0 then 0 else if lcgValue s2 > 0.5 then 5 else -5);
          buildY = scanDown W buildX buildZ (groundY + 5) (groundY - 10) notAirOrWater groundY;
          s3 = lcgNext env s2;
          buildingType = lcgValue s3;
          W' = (if buildingType < 0.4 then generateVillageHouse buildX buildY buildZ W
                else if buildingType < 0.6 then generateVillageFarm buildX buildY buildZ W
                else if buildingType < 0.8 then generateVillageChurch buildX buildY buildZ W
                else generateVillageBlacksmith buildX buildY buildZ W);
          kind = (if buildingType < 0.4 then ''house''
                  else if buildingType < 0.6 then ''farm''
                  else if buildingType < 0.8 then ''church''
                  else ''blacksmith'');
          s4 = lcgNext env s3
      in (buildingDist + 8 + \<lfloor>lcgValue s4 * 5\<rfloor>, (W', blds @ [(buildX, buildZ, kind)], s4)))"

lemma villageBuilding_advances:
  "buildingDist + 8 \<le> fst (villageBuilding env centerX centerZ groundY ddx ddz buildingDist st)"
proof -
  have "0 \<le> \<lfloor>lcgValue (lcgNext env k) * 5\<rfloor>" for k
    by (simp add: lcgValue_def lcgNext_def)
  then show ?thesis
    by (simp add: villageBuilding_def Let_def)
qed

function villageBuildings ::
  "Env \<Rightarrow> int \<Rightarrow> int \<Rightarrow> int \<Rightarrow> int \<Rightarrow> int \<Rightarrow> int \<Rightarrow> int \<Rightarrow> VillageWalk \<Rightarrow> VillageWalk" where
  "villageBuildings env centerX centerZ groundY ddx ddz pathLength buildingDist st =
     (if buildingDist < pathLength - 4 then
        villageBuildings env centerX centerZ groundY ddx ddz pathLength
          (fst (villageBuilding env centerX centerZ groundY ddx ddz buildingDist st))
          (snd (villageBuilding env centerX centerZ groundY ddx ddz buildingDist st))
      else st)"
  by pat_completeness auto
termination
proof (relation "measure (\<lambda>(env, centerX, centerZ, groundY, ddx, ddz, pathLength, buildingDist, st).
                            nat (pathLength - 4 - buildingDist))", goal_cases)
  case 1
  show ?case by simp
next
  case (2 env centerX centerZ groundY ddx ddz pathLength buildingDist st)
  then show ?case
    using villageBuilding_advances [of buildingDist env centerX centerZ groundY ddx ddz st]
    by (simp add: case_prod_unfold)
qed

text \<open>The body of the loop that lays a path, and the body of \<open>for (const dir of pathDirections)\<close>.\<close>

definition villagePathBlock :: "int \<Rightarrow> int \<Rightarrow> int \<Rightarrow> int \<Rightarrow> int \<Rightarrow> int \<Rightarrow> World \<Rightarrow> World" where
  "villagePathBlock centerX centerZ groundY ddx ddz i W =
     (let pathX = centerX + ddx * i;
          pathZ = centerZ + ddz * i;
          pathY = scanDown W pathX pathZ (groundY + 5) (groundY - 10) notAirOrWater groundY
      in place pathX pathY pathZ COBBLESTONE W)"

definition villagePath ::
  "Env \<Rightarrow> int \<Rightarrow> int \<Rightarrow> int \<Rightarrow> int \<times> int \<Rightarrow> VillageWalk \<Rightarrow> VillageWalk" where
  "villagePath env centerX centerZ groundY dir st =
     (let ddx = fst dir; ddz = snd dir;
          W = fst st; blds = fst (snd st); s = snd (snd st);
          s1 = lcgNext env s;
          pathLength = 15 + \<lfloor>lcgValue s1 * 10\<rfloor>;
          W1 = forRange 1 pathLength (villagePathBlock centerX centerZ groundY ddx ddz) W
      in villageBuildings env centerX centerZ groundY ddx ddz pathLength 6 (W1, blds, s1))"

definition pushVillage :: "VillageLocation \<Rightarrow> World \<Rightarrow> World" where
  "pushVillage v W =
     W\<lparr>structures := (structures W)\<lparr>villageLocations := villageLocations (structures W) @ [v]\<rparr>\<rparr>"

text \<open>The flatness check of \<open>tryGenerateVillage\<close>, and what follows the two early returns.\<close>

definition villageHeightVariation :: "World \<Rightarrow> int \<Rightarrow> int \<Rightarrow> int \<Rightarrow> int" where
  "villageHeightVariation W centerX centerZ groundY =
     sum_list (map (\<lambda>dx. sum_list (map (\<lambda>dz.
        case find (\<lambda>ty. notAirOrWater (World_getBlock W (centerX + dx) ty (centerZ + dz)))
                  (rev [groundY - 10 + 1..groundY + 5]) of
          None \<Rightarrow> 0
        | Some ty \<Rightarrow> \<bar>ty - groundY\<bar>) [-20, -10, 0, 10, 20])) [-20, -10, 0, 10, 20])"

definition buildVillage :: "Env \<Rightarrow> int \<Rightarrow> int \<Rightarrow> int \<Rightarrow> World \<Rightarrow> World" where
  "buildVillage env centerX groundY centerZ W =
     (let W1 = generateVillageWell centerX groundY centerZ W;
          pathDirections = [(1, 0), (-1, 0), (0, 1), (0, -1)];
          walk = fold (villagePath env centerX centerZ groundY) pathDirections
                   (W1, [], centerX * 31337 + centerZ * 73856)
      in pushVillage \<lparr>village_x = centerX, village_z = centerZ,
                      buildingPositions = fst (snd walk)\<rparr> (fst walk))"

definition tryGenerateVillage :: "Env \<Rightarrow> int \<Rightarrow> int \<Rightarrow> World \<Rightarrow> World" where
  "tryGenerateVillage env worldX worldZ W =
     (let centerX = worldX + 16;
          centerZ = worldZ + 16;
          groundY = scanDown W centerX centerZ 80 30 (\<lambda>b. b = GRASS \<or> b = DIRT) (-1)
      in if groundY < 0 then W
         else if villageHeightVariation W centerX centerZ groundY > 30 then W
         else buildVillage env centerX groundY centerZ W)"

subsection \<open>Structures of a chunk\<close>

definition generateStructures :: "Env \<Rightarrow> Chunk \<Rightarrow> World \<Rightarrow> World" where
  "generateStructures env chunk W =
     (let key = (chunkX chunk, chunkZ chunk) in
      if key \<in> generatedStructures (structures W) then W
      else
        let W0 = W\<lparr>structures := (structures W)
                      \<lparr>generatedStructures := insert key (generatedStructures (structures W))\<rparr>\<rparr>;
            worldX = chunkX chunk * CHUNK_SIZE;
            worldZ = chunkZ chunk * CHUNK_SIZE;
            W1 = (if shouldGenerateStructure env (chunkX chunk) (chunkZ chunk) 0.02 12345
                  then tryGenerateDesertTemple (worldX + 8) (worldZ + 8) W0 else W0);
            W2 = (if shouldGenerateStructure env (chunkX chunk) (chunkZ chunk) 0.03 54321
                  then tryGenerateShipwreck (worldX + 8) (worldZ + 8) W1 else W1);
            W3 = (if shouldGenerateStructure env (chunkX chunk) (chunkZ chunk) 0.01 99999
                  then tryGenerateRuinedPortal env (worldX + 8) (worldZ + 8) W2 else W2);
            W4 = (if shouldGenerateStructure env (chunkX chunk) (chunkZ chunk) 0.025 77777
                  then tryGenerateDungeon env (worldX + 8) (worldZ + 8) W3 else W3);
            W5 = (if shouldGenerateStructure env (chunkX chunk) (chunkZ chunk) 0.008 55555
                  then tryGenerateVillage env worldX worldZ W4 else W4)
        in W5)"

subsection \<open>Spawn village\<close>

definition forceGenerateVillage :: "int \<Rightarrow> int \<Rightarrow> World \<Rightarrow> World" where
  "forceGenerateVillage centerX centerZ W =
     (let groundY = scanDown W centerX centerZ 80 30 notAirOrWater 64 in
      doAll
        [forRange (-25) 25 (\<lambda>dx. forRange (-25) 25 (\<lambda>dz. doAll
           [place (centerX + dx) groundY (centerZ + dz) GRASS,
            place (centerX + dx) (groundY - 1) (centerZ + dz) DIRT,
            place (centerX + dx) (groundY - 2) (centerZ + dz) DIRT,
            forRange 1 15 (\<lambda>dy. place (centerX + dx) (groundY + dy) (centerZ + dz) AIR)])),
         generateVillageWell centerX groundY centerZ,
         generateVillageHouse (centerX + 8) groundY centerZ,
         generateVillageHouse (centerX - 8) groundY centerZ,
         generateVillageHouse centerX groundY (centerZ + 8),
         generateVillageHouse centerX groundY (centerZ - 8),
         generateVillageBlacksmith (centerX + 12) groundY (centerZ + 12),
         generateVillageChurch (centerX - 12) groundY (centerZ - 12),
         generateVillageFarm (centerX + 15) groundY (centerZ - 8),
         generateVillageFarm (centerX - 15) groundY (centerZ + 8),
         forRange 1 20 (\<lambda>i. doAll
           [place (centerX + i) groundY centerZ COBBLESTONE,
            place (centerX - i) groundY centerZ COBBLESTONE,
            place centerX groundY (centerZ + i) COBBLESTONE,
            place centerX groundY (centerZ - i) COBBLESTONE]),
         forRange 1 15 (\<lambda>i. doAll
           [place (centerX + i) groundY (centerZ + i) COBBLESTONE,
            place (centerX - i) groundY (centerZ - i) COBBLESTONE]),
         pushVillage \<lparr>village_x = centerX, village_z = centerZ,
                       buildingPositions =
                         [(centerX + 8, centerZ, ''house''), (centerX - 8, centerZ, ''house''),
                          (centerX, centerZ + 8, ''house''), (centerX, centerZ - 8, ''house''),
                          (centerX + 12, centerZ + 12, ''blacksmith''),
                          (centerX - 12, centerZ - 12, ''church''),
                          (centerX + 15, centerZ - 8, ''farm''),
                          (centerX - 15, centerZ + 8, ''farm'')]\<rparr>] W)"

definition generateSpawnVillage :: "World \<Rightarrow> World" where
  "generateSpawnVillage W =
     (if spawnVillageGenerated (structures W) then W
      else forceGenerateVillage 0 0
             (W\<lparr>structures := (structures W)\<lparr>spawnVillageGenerated := True\<rparr>\<rparr>))"

section \<open>Chunk streaming (world.ts)\<close>

text \<open>
  \<open>EndGenerator.generateChunk\<close>: the blocks its loops write, then the two flags.
\<close>

definition EndGenerator_generateChunk :: "Env \<Rightarrow> Chunk \<Rightarrow> Chunk" where
  "EndGenerator_generateChunk env c = c\<lparr>blocks := endBlocks env c, isGenerated := True, needsRebuild := True\<rparr>"

text \<open>
  \<open>updateChunks\<close> is five loops in a row. The first, under the comment
  \<open>Queue chunks that need to be generated\<close>, appends every chunk of the square around
  the player that the map does not hold, with its distance as priority.
\<close>

definition queueMissing :: "real \<Rightarrow> real \<Rightarrow> World \<Rightarrow> World" where
  "queueMissing playerX playerZ W =
     (let currentChunkX = \<lfloor>playerX / real_of_int CHUNK_SIZE\<rfloor>;
          currentChunkZ = \<lfloor>playerZ / real_of_int CHUNK_SIZE\<rfloor>
      in forRange (- renderDistance W) (renderDistance W) (\<lambda>dx.
           forRange (- renderDistance W) (renderDistance W) (\<lambda>dz W'.
             let cx = currentChunkX + dx;
                 cz = currentChunkZ + dz
             in if map_of (chunks W') (cx, cz) = None
                  then W'\<lparr>chunksToGenerate :=
                            chunksToGenerate W' @ [(cx, cz, sqrt (real_of_int (dx * dx + dz * dz)))]\<rparr>
                else W')) W)"

text \<open>\<open>this.chunksToGenerate.sort((a, b) => a.priority - b.priority)\<close>; the sort is stable.\<close>

definition sortQueue :: "World \<Rightarrow> World" where
  "sortQueue W = W\<lparr>chunksToGenerate := sort_key (\<lambda>e. snd (snd e)) (chunksToGenerate W)\<rparr>"

text \<open>
  The body of \<open>if (!this.chunks.has(key))\<close> in the generation loop: a new chunk
  object, filled by the generator of the current dimension, stamped with structures
  in the overworld, then put in the map and in the rebuild queue.
\<close>

definition createChunk :: "Env \<Rightarrow> int \<Rightarrow> int \<Rightarrow> World \<Rightarrow> World" where
  "createChunk env x z W =
     (let r = nextRef W;
          W1 = W\<lparr>objs := (objs W)(r := newChunk x z), nextRef := Suc r\<rparr>;
          W2 = (if currentDimension W1 = end_dimension
                  then W1\<lparr>objs := (objs W1)(r := EndGenerator_generateChunk env (objs W1 r))\<rparr>
                else
                  let g = generateChunk env (randomCalls W1, objs W1 r);
                      W' = W1\<lparr>objs := (objs W1)(r := snd g), randomCalls := fst g\<rparr>
                  in generateStructures env (objs W' r) W')
      in W2\<lparr>chunks := chunks W2 @ [((x, z), r)], chunksToRebuild := chunksToRebuild W2 @ [r]\<rparr>)"

text \<open>
  The loop \<open>for (let i = 0; i < chunksPerFrame && this.chunksToGenerate.length > 0; i++)\<close>
  with \<open>n\<close> rounds left.
\<close>

fun generateLoop :: "Env \<Rightarrow> nat \<Rightarrow> World \<Rightarrow> World" where
  "generateLoop env 0 W = W"
| "generateLoop env (Suc n) W =
     (case chunksToGenerate W of
        [] \<Rightarrow> W
      | e # rest \<Rightarrow>
          let W1 = W\<lparr>chunksToGenerate := rest\<rparr>;
              x = fst e; z = fst (snd e)
          in generateLoop env n
               (if map_of (chunks W1) (x, z) = None then createChunk env x z W1 else W1))"

definition generateQueued :: "Env \<Rightarrow> World \<Rightarrow> World" where
  "generateQueued env W = (let chunksPerFrame = 2 in generateLoop env chunksPerFrame W)"

text \<open>
  \<open>rebuildChunkMesh\<close>, without the scene and the torch lights: the chunk is meshed
  with the world as neighbour lookup, the buffers go to the renderer.
\<close>

definition rebuildChunkMesh :: "nat \<Rightarrow> World \<Rightarrow> World" where
  "rebuildChunkMesh r W = W\<lparr>objs := (objs W)(r := fst (buildMesh (objs W r) (World_getBlock W)))\<rparr>"

text \<open>
  The two rebuild loops, with their state \<open>(rebuilds, world)\<close>: first the chunks of
  the map in insertion order, then the rebuild queue.
\<close>

definition rebuildResident :: "nat \<Rightarrow> nat \<times> World \<Rightarrow> nat \<times> World" where
  "rebuildResident r st =
     (let rebuildsPerFrame = 4; rebuilds = fst st; W = snd st in
      if needsRebuild (objs W r) \<and> isGenerated (objs W r) \<and> rebuilds < rebuildsPerFrame
        then (Suc rebuilds, rebuildChunkMesh r W)
      else st)"

function drainRebuildQueue :: "nat \<times> World \<Rightarrow> nat \<times> World" where
  "drainRebuildQueue st =
     (let rebuildsPerFrame = 4; rebuilds = fst st; W = snd st in
      if chunksToRebuild W \<noteq> [] \<and> rebuilds < rebuildsPerFrame then
        (let r = hd (chunksToRebuild W);
             W1 = W\<lparr>chunksToRebuild := tl (chunksToRebuild W)\<rparr>
         in if needsRebuild (objs W1 r)
              then drainRebuildQueue (Suc rebuilds, rebuildChunkMesh r W1)
            else drainRebuildQueue (rebuilds, W1))
      else st)"
  by pat_completeness auto
termination
  by (relation "measure (\<lambda>st. length (chunksToRebuild (snd st)))")
     (auto simp: rebuildChunkMesh_def)

definition rebuildMeshes :: "World \<Rightarrow> World" where
  "rebuildMeshes W = snd (drainRebuildQueue (fold rebuildResident (map snd (chunks W)) (0, W)))"

text \<open>
  The last loop, under \<open>Unload distant chunks\<close>: every entry of the map whose chunk is
  further than \<open>renderDistance + 2\<close> from the player's chunk is deleted.
\<close>

definition unloadDistant :: "real \<Rightarrow> real \<Rightarrow> World \<Rightarrow> World" where
  "unloadDistant playerX playerZ W =
     (let currentChunkX = \<lfloor>playerX / real_of_int CHUNK_SIZE\<rfloor>;
          currentChunkZ = \<lfloor>playerZ / real_of_int CHUNK_SIZE\<rfloor>;
          unloadDistance = renderDistance W + 2
      in W\<lparr>chunks :=
            filter (\<lambda>entry.
                let chunk = objs W (snd entry);
                    dx = chunkX chunk - currentChunkX;
                    dz = chunkZ chunk - currentChunkZ;
                    distance = sqrt (real_of_int (dx * dx + dz * dz))
                in \<not> distance > real_of_int unloadDistance) (chunks W)\<rparr>)"

definition updateChunks :: "Env \<Rightarrow> real \<Rightarrow> real \<Rightarrow> World \<Rightarrow> World" where
  "updateChunks env playerX playerZ W =
     unloadDistant playerX playerZ
       (rebuildMeshes (generateQueued env (sortQueue (queueMissing playerX playerZ W))))"

text \<open>The torch list \<open>buildMesh\<close> leaves in a chunk.\<close>

definition torchList :: "Chunk \<Rightarrow> Int3 list" where
  "torchList c =
     concat (map (\<lambda>y. concat (map (\<lambda>z. concat (map (torchAt c y z) [0..CHUNK_SIZE - 1]))
                                  [0..CHUNK_SIZE - 1]))
                 [0..CHUNK_HEIGHT - 1])"

section \<open>Frame conditions\<close>

text \<open>
  \<open>keeps sel f\<close>: the state transformer \<open>f\<close> leaves the part \<open>sel\<close> of the world
  as it was. \<open>keysOf\<close> is the set of chunk keys the structure generator has seen.
\<close>

definition keeps :: "(World \<Rightarrow> 'a) \<Rightarrow> (World \<Rightarrow> World) \<Rightarrow> bool" where
  "keeps sel f = (\<forall>W. sel (f W) = sel W)"

abbreviation keysOf :: "World \<Rightarrow> (int \<times> int) set" where
  "keysOf W \<equiv> generatedStructures (structures W)"

section \<open>Example worlds\<close>

text \<open>
  \<open>newWorld rd\<close> is the world the constructor returns. \<open>generatedEmptyChunk\<close> is a
  chunk of air that has been generated and meshed; \<open>twoChunkWorld\<close> holds two of
  them, at chunk coordinates (3, 3) and (2, 3).
\<close>

definition newWorld :: "int \<Rightarrow> World" where
  "newWorld rd =
     \<lparr>objs = (\<lambda>r. newChunk 0 0), nextRef = 0, chunks = [], renderDistance = rd,
      currentDimension = overworld, chunksToGenerate = [], chunksToRebuild = [],
      structures = \<lparr>generatedStructures = {}, lootChests = [], villageLocations = [],
                    spawnVillageGenerated = False\<rparr>,
      randomCalls = 0\<rparr>"

definition generatedEmptyChunk :: "int \<Rightarrow> int \<Rightarrow> Chunk" where
  "generatedEmptyChunk cx cz = (newChunk cx cz)\<lparr>isGenerated := True, needsRebuild := False\<rparr>"


definition twoChunkWorld :: World where
  "twoChunkWorld =
     (newWorld 6)\<lparr>objs := (\<lambda>r. if r = 0 then generatedEmptyChunk 3 3 else generatedEmptyChunk 2 3),
                  nextRef := 2, chunks := [((3, 3), 0), ((2, 3), 1)]\<rparr>"




text \<open>
  An environment for examples: \<open>Math.random()\<close> always 0, every noise field 0, the
  multiply-add of \<open>seededRandom\<close> without rounding, and an End generator that
  writes no block.
\<close>

definition flatEnv :: Env where
  "flatEnv =
     \<lparr>mathRandom = (\<lambda>k. 0), lcgMulAdd = (\<lambda>s. s * 1103515245 + 12345),
      noise2D = (\<lambda>x z. 0), noise3D = (\<lambda>x y z. 0), caveNoise = (\<lambda>x y z. 0),
      caveNoise2 = (\<lambda>x y z. 0), ravinNoise = (\<lambda>x y z. 0), treeNoise = (\<lambda>x z. 0),
      endBlocks = (\<lambda>c. blocks c)\<rparr>"

text \<open>
  Two generated worlds of one chunk, with a column at \<open>x = 8\<close>, \<open>z = 8\<close>. In
  \<open>wreckWorld\<close> it holds water at \<open>y = 62\<close> on stone at 61, and further down water
  from 41 to 50 on stone at 40. In \<open>shallowWorld\<close> it holds water from 38 to 40 on
  stone at 37.
\<close>

definition wreckColumn :: Chunk where
  "wreckColumn =
     fold (\<lambda>(y, t) c. Chunk_setBlock c 8 y 8 t)
       ([(62, WATER), (61, STONE)] @ map (\<lambda>y. (y, WATER)) [41..50] @ [(40, STONE)])
       (generatedEmptyChunk 0 0)"

definition wreckWorld :: World where
  "wreckWorld = (newWorld 6)\<lparr>objs := (\<lambda>r. wreckColumn), nextRef := 1, chunks := [((0, 0), 0)]\<rparr>"

definition shallowColumn :: Chunk where
  "shallowColumn =
     fold (\<lambda>(y, t) c. Chunk_setBlock c 8 y 8 t)
       [(40, WATER), (39, WATER), (38, WATER), (37, STONE)]
       (generatedEmptyChunk 0 0)"

definition shallowWorld :: World where
  "shallowWorld = (newWorld 6)\<lparr>objs := (\<lambda>r. shallowColumn), nextRef := 1, chunks := [((0, 0), 0)]\<rparr>"

text \<open>
  An environment whose 2D terrain noise is -1/2 everywhere: every column is ocean
  floor at height 20, and no tree grows.
\<close>

definition oceanEnv :: Env where
  "oceanEnv = flatEnv\<lparr>noise2D := (\<lambda>x z. - 1 / 2), treeNoise := (\<lambda>x z. 1)\<rparr>"

text \<open>\<open>oceanEnv\<close> with \<open>Math.random()\<close> always 0, and with \<open>Math.random()\<close> always 1/2.\<close>

definition clayEnv :: Env where
  "clayEnv = oceanEnv\<lparr>mathRandom := (\<lambda>k. 0)\<rparr>"

definition gravelEnv :: Env where
  "gravelEnv = oceanEnv\<lparr>mathRandom := (\<lambda>k. 1 / 2)\<rparr>"

text \<open>
  A world with render distance 1 after two ticks with the player in chunk (0, 0) and an
  edit at the corner block (0, 64, 0).
\<close>

definition editedWorld :: World where
  "editedWorld =
     World_setBlock (updateChunks flatEnv 0 0 (updateChunks flatEnv 0 0 (newWorld 1))) 0 64 0 STONE"

section \<open>Properties\<close>

section \<open>Coordinates\<close>

lemma chunkCoord_div: "chunkCoord w = w div 32"
  unfolding chunkCoord_def CHUNK_SIZE_def
  by (metis floor_divide_of_int_eq of_int_numeral)

lemma localCoord_mod: "localCoord w = w mod 32"
proof (cases "0 \<le> w")
  case True
  then have "js_rem w 32 = w mod 32" by (simp add: js_rem_def sgn_if)
  moreover have "0 \<le> w mod 32" by simp
  ultimately show ?thesis
    unfolding localCoord_def CHUNK_SIZE_def by (simp add: js_rem_def sgn_if)
next
  case False
  then have a: "js_rem w 32 = - ((- w) mod 32)" by (simp add: js_rem_def sgn_if)
  have b: "0 \<le> (- w) mod 32" "(- w) mod 32 < 32" by simp_all
  have c: "(- ((- w) mod 32) + 32) mod 32 = w mod 32"
    by (metis add.commute mod_add_self1 mod_minus_eq minus_minus)
  show ?thesis
    unfolding localCoord_def CHUNK_SIZE_def a using b c
    by (simp add: js_rem_def sgn_if)
qed

lemma localCoord_range: "0 \<le> localCoord w" "localCoord w < 32"
  by (simp_all add: localCoord_mod)


section \<open>Reading and writing blocks through the world\<close>

lemma mark_chunks [simp]: "chunks (markChunkForRebuild W a b) = chunks W"
  by (simp add: markChunkForRebuild_def split: option.splits)

lemma mark_getChunkRef [simp]: "getChunkRef (markChunkForRebuild W a b) = getChunkRef W"
  by (simp add: getChunkRef_def fun_eq_iff)

lemma mark_blocks [simp]: "blocks (objs (markChunkForRebuild W a b) r) = blocks (objs W r)"
  by (simp add: markChunkForRebuild_def split: option.splits)

lemma mark_isGenerated [simp]:
  "isGenerated (objs (markChunkForRebuild W a b) r) = isGenerated (objs W r)"
  by (simp add: markChunkForRebuild_def split: option.splits)

lemma mark_keeps_dirty:
  "needsRebuild (objs W r) \<Longrightarrow> needsRebuild (objs (markChunkForRebuild W a b) r)"
  by (simp add: markChunkForRebuild_def split: option.splits)

lemma mark_sets_dirty:
  "getChunkRef W a b = Some r \<Longrightarrow> isGenerated (objs W r) \<Longrightarrow>
   needsRebuild (objs (markChunkForRebuild W a b) r)"
  by (simp add: markChunkForRebuild_def)

lemma Chunk_setBlock_isGenerated [simp]:
  "isGenerated (Chunk_setBlock c x y z t) = isGenerated c"
  by (simp add: Chunk_setBlock_def)

lemma Chunk_setBlock_getBlock_same:
  "chunk_ok c \<Longrightarrow> 0 \<le> x \<Longrightarrow> x < 32 \<Longrightarrow> 0 \<le> y \<Longrightarrow> y < 128 \<Longrightarrow> 0 \<le> z \<Longrightarrow> z < 32 \<Longrightarrow>
   Chunk_getBlock (Chunk_setBlock c x y z t) x y z = t"
  by (simp add: Chunk_setBlock_def Chunk_getBlock_def chunk_ok_def getBlockIndex_def
      CHUNK_SIZE_def CHUNK_HEIGHT_def)

lemma setBlock_chunks [simp]: "chunks (World_setBlock W x y z t) = chunks W"
  by (simp add: World_setBlock_def Let_def split: option.splits)

lemma setBlock_blocks_edited:
  assumes "getChunkRef W (chunkCoord x) (chunkCoord z) = Some r" "isGenerated (objs W r)"
  shows "blocks (objs (World_setBlock W x y z t) r)
         = blocks (Chunk_setBlock (objs W r) (localCoord x) y (localCoord z) t)"
    and "isGenerated (objs (World_setBlock W x y z t) r)"
  using assms by (simp_all add: World_setBlock_def Let_def)

lemma Chunk_getBlock_cong_blocks:
  "blocks c = blocks c' \<Longrightarrow> Chunk_getBlock c x y z = Chunk_getBlock c' x y z"
  by (simp add: Chunk_getBlock_def)


text \<open>
  Claim C2. For every integer world coordinate \<open>(x, y, z)\<close> whose chunk is resident
  and generated, with \<open>0 \<le> y < 128\<close>, and every block type \<open>t\<close>:
  \<open>setBlock(x, y, z, t)\<close> followed by \<open>getBlock(x, y, z)\<close> returns \<open>t\<close>.
\<close>

theorem setBlock_getBlock_roundtrip:
  assumes "getChunk W (chunkCoord x) (chunkCoord z) = Some c"
    and "isGenerated c" and "chunk_ok c"
    and "0 \<le> y" and "y < CHUNK_HEIGHT"
  shows "World_getBlock (World_setBlock W x y z t) x y z = t"
proof -
  from assms(1) obtain r where r: "getChunkRef W (chunkCoord x) (chunkCoord z) = Some r"
    and c: "c = objs W r"
    by (auto simp: getChunk_def)
  let ?W = "World_setBlock W x y z t"
  have ref: "getChunkRef ?W (chunkCoord x) (chunkCoord z) = Some r"
    using r by (simp add: getChunkRef_def)
  have gen: "isGenerated (objs ?W r)"
    using setBlock_blocks_edited(2) [OF r] assms(2) c by simp
  have bl: "blocks (objs ?W r)
            = blocks (Chunk_setBlock c (localCoord x) y (localCoord z) t)"
    using setBlock_blocks_edited(1) [OF r] assms(2) c by simp
  have "World_getBlock ?W x y z = Chunk_getBlock (objs ?W r) (localCoord x) y (localCoord z)"
    using ref gen by (simp add: World_getBlock_def getChunk_def)
  also have "\<dots> = Chunk_getBlock (Chunk_setBlock c (localCoord x) y (localCoord z) t)
                     (localCoord x) y (localCoord z)"
    by (rule Chunk_getBlock_cong_blocks [OF bl])
  also have "\<dots> = t"
    using assms(3,4,5) localCoord_range [of x] localCoord_range [of z]
    by (intro Chunk_setBlock_getBlock_same) (simp_all add: CHUNK_HEIGHT_def)
  finally show ?thesis .
qed

lemma generatedEmptyChunk_simps [simp]:
  "isGenerated (generatedEmptyChunk a b)" "chunk_ok (generatedEmptyChunk a b)"
  "\<not> needsRebuild (generatedEmptyChunk a b)"
  by (simp_all add: generatedEmptyChunk_def newChunk_def chunk_ok_def)

theorem setBlock_getBlock_roundtrip_witness:
  "getChunk twoChunkWorld (chunkCoord 100) (chunkCoord 97) = Some (generatedEmptyChunk 3 3)
   \<and> isGenerated (generatedEmptyChunk 3 3) \<and> chunk_ok (generatedEmptyChunk 3 3)
   \<and> (0::int) \<le> 64 \<and> 64 < CHUNK_HEIGHT
   \<and> World_getBlock (World_setBlock twoChunkWorld 100 64 97 TORCH) 100 64 97 = TORCH"
proof -
  have a: "getChunk twoChunkWorld (chunkCoord 100) (chunkCoord 97) = Some (generatedEmptyChunk 3 3)"
    by (simp add: getChunk_def getChunkRef_def twoChunkWorld_def chunkCoord_div)
  have b: "(64::int) < CHUNK_HEIGHT" by (simp add: CHUNK_HEIGHT_def)
  show ?thesis
    using a b setBlock_getBlock_roundtrip [OF a _ _ _ b, of TORCH] by simp
qed

text \<open>
  Claim C3. At a coordinate whose chunk is not resident, or resident but not
  generated, \<open>getBlock\<close> returns \<open>AIR\<close> and \<open>setBlock\<close> returns the world as it
  was: every chunk's blocks and flags, the chunk map and both queues are unchanged.
\<close>

theorem absent_chunk_reads_air_write_noop:
  assumes "getChunk W (chunkCoord x) (chunkCoord z) = None
           \<or> (\<exists>c. getChunk W (chunkCoord x) (chunkCoord z) = Some c \<and> \<not> isGenerated c)"
  shows "World_getBlock W x y z = AIR \<and> World_setBlock W x y z t = W"
  using assms
  by (auto simp: World_getBlock_def World_setBlock_def getChunk_def Let_def split: option.splits)

theorem absent_chunk_reads_air_write_noop_witness:
  "getChunk (newWorld 6) (chunkCoord 5) (chunkCoord (-40)) = None
   \<and> World_getBlock (newWorld 6) 5 64 (-40) = AIR
   \<and> World_setBlock (newWorld 6) 5 64 (-40) STONE = newWorld 6"
proof -
  have a: "getChunk (newWorld 6) (chunkCoord 5) (chunkCoord (-40)) = None"
    by (simp add: getChunk_def getChunkRef_def newWorld_def)
  show ?thesis
    using a absent_chunk_reads_air_write_noop [of "newWorld 6" 5 "-40" 64 STONE] by simp
qed

lemma setBlock_getChunkRef [simp]: "getChunkRef (World_setBlock W x y z t) = getChunkRef W"
  by (simp add: getChunkRef_def fun_eq_iff)

lemma markIf_getChunkRef [simp]: "getChunkRef (markIf b W a c) = getChunkRef W"
  by (simp add: markIf_def)

lemma markIf_isGenerated [simp]: "isGenerated (objs (markIf b W a c) r) = isGenerated (objs W r)"
  by (simp add: markIf_def)

lemma markIf_keeps: "needsRebuild (objs W r) \<Longrightarrow> needsRebuild (objs (markIf b W a c) r)"
  by (simp add: markIf_def mark_keeps_dirty)

lemma markIf_sets:
  "b \<Longrightarrow> getChunkRef W a c = Some r \<Longrightarrow> isGenerated (objs W r) \<Longrightarrow>
   needsRebuild (objs (markIf b W a c) r)"
  by (simp add: markIf_def mark_sets_dirty)

lemma World_setBlock_steps:
  assumes "getChunkRef W (chunkCoord x) (chunkCoord z) = Some r" "isGenerated (objs W r)"
  shows "World_setBlock W x y z t =
     markIf (localCoord z = CHUNK_SIZE - 1)
       (markIf (localCoord z = 0)
          (markIf (localCoord x = CHUNK_SIZE - 1)
             (markIf (localCoord x = 0)
                (W\<lparr>objs := (objs W)(r := Chunk_setBlock (objs W r) (localCoord x) y (localCoord z) t)\<rparr>)
                (chunkCoord x - 1) (chunkCoord z))
             (chunkCoord x + 1) (chunkCoord z))
          (chunkCoord x) (chunkCoord z - 1))
       (chunkCoord x) (chunkCoord z + 1)"
  using assms by (simp add: World_setBlock_def Let_def markIf_def)

text \<open>
  Claim C6. A \<open>setBlock\<close> in a generated chunk at local \<open>x = 0\<close>, \<open>x = 31\<close>,
  \<open>z = 0\<close> or \<open>z = 31\<close> leaves the resident, generated chunk on the other side of
  that edge with \<open>needsRebuild = true\<close>; at local \<open>x = 0\<close> of chunk (3, 3) that
  neighbour is chunk (2, 3).
\<close>

theorem setBlock_marks_boundary_neighbour:
  assumes "getChunk W (chunkCoord x) (chunkCoord z) = Some c" and "isGenerated c"
    and "getChunk W nx nz = Some n" and "isGenerated n"
    and "(localCoord x = 0 \<and> nx = chunkCoord x - 1 \<and> nz = chunkCoord z)
         \<or> (localCoord x = CHUNK_SIZE - 1 \<and> nx = chunkCoord x + 1 \<and> nz = chunkCoord z)
         \<or> (localCoord z = 0 \<and> nx = chunkCoord x \<and> nz = chunkCoord z - 1)
         \<or> (localCoord z = CHUNK_SIZE - 1 \<and> nx = chunkCoord x \<and> nz = chunkCoord z + 1)"
  shows "\<exists>n'. getChunk (World_setBlock W x y z t) nx nz = Some n' \<and> needsRebuild n'"
proof -
  from assms(1,2) obtain r where r: "getChunkRef W (chunkCoord x) (chunkCoord z) = Some r"
    and gr: "isGenerated (objs W r)"
    by (auto simp: getChunk_def)
  from assms(3,4) obtain q where q: "getChunkRef W nx nz = Some q"
    and gq: "isGenerated (objs W q)"
    by (auto simp: getChunk_def)
  define W1 where
    "W1 = W\<lparr>objs := (objs W)(r := Chunk_setBlock (objs W r) (localCoord x) y (localCoord z) t)\<rparr>"
  have q1: "getChunkRef W1 nx nz = Some q"
    using q by (simp add: W1_def getChunkRef_def)
  have g1: "isGenerated (objs W1 q)"
    using gq gr by (simp add: W1_def)
  have "needsRebuild (objs (World_setBlock W x y z t) q)"
    unfolding World_setBlock_steps [OF r gr] W1_def [symmetric]
    using assms(5)
  proof (elim disjE conjE)
    assume "localCoord x = 0" "nx = chunkCoord x - 1" "nz = chunkCoord z"
    then show "needsRebuild (objs (markIf (localCoord z = CHUNK_SIZE - 1)
       (markIf (localCoord z = 0)
          (markIf (localCoord x = CHUNK_SIZE - 1)
             (markIf (localCoord x = 0) W1 (chunkCoord x - 1) (chunkCoord z))
             (chunkCoord x + 1) (chunkCoord z))
          (chunkCoord x) (chunkCoord z - 1))
       (chunkCoord x) (chunkCoord z + 1)) q)"
      using q1 g1 by (intro markIf_keeps markIf_sets) simp_all
  next
    assume "localCoord x = CHUNK_SIZE - 1" "nx = chunkCoord x + 1" "nz = chunkCoord z"
    then show "needsRebuild (objs (markIf (localCoord z = CHUNK_SIZE - 1)
       (markIf (localCoord z = 0)
          (markIf (localCoord x = CHUNK_SIZE - 1)
             (markIf (localCoord x = 0) W1 (chunkCoord x - 1) (chunkCoord z))
             (chunkCoord x + 1) (chunkCoord z))
          (chunkCoord x) (chunkCoord z - 1))
       (chunkCoord x) (chunkCoord z + 1)) q)"
      using q1 g1 by (intro markIf_keeps markIf_sets) simp_all
  next
    assume "localCoord z = 0" "nx = chunkCoord x" "nz = chunkCoord z - 1"
    then show "needsRebuild (objs (markIf (localCoord z = CHUNK_SIZE - 1)
       (markIf (localCoord z = 0)
          (markIf (localCoord x = CHUNK_SIZE - 1)
             (markIf (localCoord x = 0) W1 (chunkCoord x - 1) (chunkCoord z))
             (chunkCoord x + 1) (chunkCoord z))
          (chunkCoord x) (chunkCoord z - 1))
       (chunkCoord x) (chunkCoord z + 1)) q)"
      using q1 g1 by (intro markIf_keeps markIf_sets) simp_all
  next
    assume "localCoord z = CHUNK_SIZE - 1" "nx = chunkCoord x" "nz = chunkCoord z + 1"
    then show "needsRebuild (objs (markIf (localCoord z = CHUNK_SIZE - 1)
       (markIf (localCoord z = 0)
          (markIf (localCoord x = CHUNK_SIZE - 1)
             (markIf (localCoord x = 0) W1 (chunkCoord x - 1) (chunkCoord z))
             (chunkCoord x + 1) (chunkCoord z))
          (chunkCoord x) (chunkCoord z - 1))
       (chunkCoord x) (chunkCoord z + 1)) q)"
      using q1 g1 by (intro markIf_sets) simp_all
  qed
  then show ?thesis
    using q by (simp add: getChunk_def)
qed

theorem setBlock_marks_boundary_neighbour_witness:
  "getChunk twoChunkWorld (chunkCoord 96) (chunkCoord 100) = Some (generatedEmptyChunk 3 3)
   \<and> getChunk twoChunkWorld 2 3 = Some (generatedEmptyChunk 2 3)
   \<and> \<not> needsRebuild (generatedEmptyChunk 2 3)
   \<and> localCoord 96 = 0 \<and> chunkCoord 96 - 1 = 2 \<and> chunkCoord 100 = 3
   \<and> (\<exists>n'. getChunk (World_setBlock twoChunkWorld 96 64 100 STONE) 2 3 = Some n'
            \<and> needsRebuild n')"
proof -
  have a: "getChunk twoChunkWorld (chunkCoord 96) (chunkCoord 100) = Some (generatedEmptyChunk 3 3)"
    by (simp add: getChunk_def getChunkRef_def twoChunkWorld_def chunkCoord_div)
  have b: "getChunk twoChunkWorld 2 3 = Some (generatedEmptyChunk 2 3)"
    by (simp add: getChunk_def getChunkRef_def twoChunkWorld_def)
  have c: "localCoord 96 = 0" "chunkCoord 96 - 1 = 2" "chunkCoord 100 = 3"
    by (simp_all add: localCoord_mod chunkCoord_div)
  show ?thesis
    using a b c setBlock_marks_boundary_neighbour [OF a _ b, of 64 STONE] by simp
qed

section \<open>Ray casting\<close>










section \<open>Mesh building\<close>

lemma fold_invariant:
  "P s \<Longrightarrow> (\<And>x s. x \<in> set xs \<Longrightarrow> P s \<Longrightarrow> P (f x s)) \<Longrightarrow> P (fold f xs s)"
  by (induction xs arbitrary: s) auto

lemma fold_appends:
  assumes "\<And>x s. x \<in> set xs \<Longrightarrow> sel (f x s) = sel s @ g x"
  shows "sel (fold f xs s) = sel s @ concat (map g xs)"
  using assms by (induction xs arbitrary: s) auto





lemma meshCorner_torches [simp]:
  "torches (meshCorner isWater x y z corners aoValues i b) = torches b"
  by (simp add: meshCorner_def split: prod.splits)

lemma meshFace_torches [simp]: "torches (meshFace c nb x y z t face b) = torches b"
proof -
  have "torches (fold (meshCorner w x y z cs avs) is b) = torches b" for w cs avs "is"
    by (rule fold_invariant [where P = "\<lambda>s. torches s = torches b"]) simp_all
  then show ?thesis
    by (simp add: meshFace_def Let_def split: prod.splits)
qed
















lemma meshBlock_torches:
  "torches (meshBlock c nb y z x b) =
     torches b @ (if Chunk_getBlock c x y z = TORCH
                  then [(chunkX c * CHUNK_SIZE + x, y, chunkZ c * CHUNK_SIZE + z)] else [])"
proof -
  have "torches (fold (meshFace c nb x y z t) fs b) = torches b" for t fs
    by (rule fold_invariant [where P = "\<lambda>s. torches s = torches b"]) simp_all
  then show ?thesis
    by (simp add: meshBlock_def Let_def)
qed

lemma meshBuffers_torches:
  "torches (meshBuffers c nb) =
     concat (map (\<lambda>y. concat (map (\<lambda>z. concat (map (torchAt c y z) [0..CHUNK_SIZE - 1]))
                                  [0..CHUNK_SIZE - 1]))
                 [0..CHUNK_HEIGHT - 1])"
proof -
  have row: "torches (fold (meshBlock c nb y z) xs b) = torches b @ concat (map (torchAt c y z) xs)"
    for y z xs b
    by (rule fold_appends [where sel = torches]) (simp add: meshBlock_torches torchAt_def)
  have layer: "torches (fold (\<lambda>z. fold (meshBlock c nb y z) xs) zs b)
        = torches b @ concat (map (\<lambda>z. concat (map (torchAt c y z) xs)) zs)" for y xs zs b
    by (rule fold_appends [where sel = torches]) (rule row)
  have "torches (fold (\<lambda>y. fold (\<lambda>z. fold (meshBlock c nb y z) xs) zs) ys b)
        = torches b @ concat (map (\<lambda>y. concat (map (\<lambda>z. concat (map (torchAt c y z) xs)) zs)) ys)"
    for xs zs ys b
    by (rule fold_appends [where sel = torches]) (rule layer)
  then show ?thesis
    by (simp add: meshBuffers_def emptyBuffers_def)
qed

lemma distinct_concat_map:
  assumes "distinct xs" "\<And>x. x \<in> set xs \<Longrightarrow> distinct (g x)"
    and "\<And>x x'. x \<in> set xs \<Longrightarrow> x' \<in> set xs \<Longrightarrow> x \<noteq> x' \<Longrightarrow> set (g x) \<inter> set (g x') = {}"
  shows "distinct (concat (map g xs))"
  using assms
proof (induction xs)
  case Nil
  then show ?case by simp
next
  case (Cons a xs)
  have "set (g a) \<inter> set (g x') = {}" if "x' \<in> set xs" for x'
    using Cons.prems(1) Cons.prems(3) [of a x'] that by auto
  then show ?case using Cons by auto
qed

lemma in_torch_row:
  "p \<in> set (concat (map (torchAt c y z) xs)) \<Longrightarrow>
   fst (snd p) = y \<and> snd (snd p) = chunkZ c * CHUNK_SIZE + z"
  by (auto simp: torchAt_def split: if_splits)

lemma in_torch_layer:
  "p \<in> set (concat (map (\<lambda>z. concat (map (torchAt c y z) xs)) zs)) \<Longrightarrow> fst (snd p) = y"
  by (auto simp: torchAt_def split: if_splits)

lemma torch_list_distinct:
  "distinct (concat (map (\<lambda>y. concat (map (\<lambda>z. concat (map (torchAt c y z) [0..CHUNK_SIZE - 1]))
                                  [0..CHUNK_SIZE - 1]))
                 [0..CHUNK_HEIGHT - 1]))"
proof -
  have row: "distinct (concat (map (torchAt c y z) xs))" if "distinct xs" for y z and xs :: "int list"
    using that
    by (rule distinct_concat_map) (auto simp: torchAt_def)
  have layer: "distinct (concat (map (\<lambda>z. concat (map (torchAt c y z) xs)) zs))"
    if "distinct xs" "distinct zs" for y and xs zs :: "int list"
    using that(2)
  proof (rule distinct_concat_map)
    fix z show "distinct (concat (map (torchAt c y z) xs))" using that(1) by (rule row)
  next
    fix z z' :: int assume "z \<noteq> z'"
    then show "set (concat (map (torchAt c y z) xs)) \<inter> set (concat (map (torchAt c y z') xs)) = {}"
      using in_torch_row [of _ c y z xs] in_torch_row [of _ c y z' xs] by fastforce
  qed
  have "distinct (concat (map (\<lambda>y. concat (map (\<lambda>z. concat (map (torchAt c y z) xs)) zs)) ys))"
    if "distinct xs" "distinct zs" "distinct ys" for xs zs ys :: "int list"
    using that(3)
  proof (rule distinct_concat_map)
    fix y show "distinct (concat (map (\<lambda>z. concat (map (torchAt c y z) xs)) zs))"
      using that(1,2) by (rule layer)
  next
    fix y y' :: int assume "y \<noteq> y'"
    then show "set (concat (map (\<lambda>z. concat (map (torchAt c y z) xs)) zs))
             \<inter> set (concat (map (\<lambda>z. concat (map (torchAt c y' z) xs)) zs)) = {}"
      using in_torch_layer [of _ c y xs zs] in_torch_layer [of _ c y' xs zs] by fastforce
  qed
  then show ?thesis by simp
qed

lemma torch_list_set:
  "set (concat (map (\<lambda>y. concat (map (\<lambda>z. concat (map (torchAt c y z) [0..CHUNK_SIZE - 1]))
                                  [0..CHUNK_SIZE - 1]))
                 [0..CHUNK_HEIGHT - 1]))
   = {(chunkX c * 32 + x, y, chunkZ c * 32 + z) | x y z.
        0 \<le> x \<and> x < 32 \<and> 0 \<le> y \<and> y < 128 \<and> 0 \<le> z \<and> z < 32
        \<and> blocks c ! nat (getBlockIndex x y z) = TORCH}"
  by (auto simp: torchAt_def CHUNK_SIZE_def CHUNK_HEIGHT_def Chunk_getBlock_def split: if_splits)

text \<open>
  Claim C10. Whatever the torch list held before, after \<open>buildMesh\<close> it holds
  exactly the world positions of the \<open>TORCH\<close> blocks in the chunk's block array, each
  once; a second \<open>buildMesh\<close> gives the same list again; the block array is
  untouched and \<open>needsRebuild\<close> is false.
\<close>

theorem buildMesh_torch_list:
  "set (torchPositions (fst (buildMesh c getNeighborBlock)))
     = {(chunkX c * 32 + x, y, chunkZ c * 32 + z) | x y z.
          0 \<le> x \<and> x < 32 \<and> 0 \<le> y \<and> y < 128 \<and> 0 \<le> z \<and> z < 32
          \<and> blocks c ! nat (getBlockIndex x y z) = TORCH}
   \<and> distinct (torchPositions (fst (buildMesh c getNeighborBlock)))
   \<and> torchPositions (fst (buildMesh (fst (buildMesh c getNeighborBlock)) getNeighborBlock'))
       = torchPositions (fst (buildMesh c getNeighborBlock))
   \<and> blocks (fst (buildMesh c getNeighborBlock)) = blocks c
   \<and> needsRebuild (fst (buildMesh c getNeighborBlock)) = False"
proof -
  have t: "torchPositions (fst (buildMesh d nb)) = torches (meshBuffers d nb)" for d nb
    by (simp add: buildMesh_def Let_def)
  have same: "torchAt (fst (buildMesh c getNeighborBlock)) = torchAt c"
    by (simp add: torchAt_def fun_eq_iff buildMesh_def Let_def Chunk_getBlock_def)
  show ?thesis
    unfolding t meshBuffers_torches same
    using torch_list_distinct [of c] torch_list_set [of c]
    by (simp add: buildMesh_def Let_def)
qed

section \<open>Structure stamping\<close>

declare shipScan.simps [simp del]
declare villageBuildings.simps [simp del]

lemma keepsD: "keeps sel f \<Longrightarrow> sel (f W) = sel W"
  by (simp add: keeps_def)

lemma keeps_fold: "(\<And>x. keeps sel (f x)) \<Longrightarrow> keeps sel (fold f xs)"
  unfolding keeps_def by (induction xs) auto

lemma keeps_forRange: "(\<And>i. keeps sel (body i)) \<Longrightarrow> keeps sel (forRange a b body)"
  using keeps_fold [of sel body "[a..b]"] by (simp add: keeps_def forRange_def)

lemma keeps_doAll_Nil: "keeps sel (doAll [])"
  by (simp add: keeps_def doAll_def)

lemma keeps_doAll_Cons: "keeps sel f \<Longrightarrow> keeps sel (doAll fs) \<Longrightarrow> keeps sel (doAll (f # fs))"
  by (simp add: keeps_def doAll_def)

lemma keeps_if: "keeps sel f \<Longrightarrow> keeps sel g \<Longrightarrow> keeps sel (\<lambda>W. if c W then f W else g W)"
  by (simp add: keeps_def)

lemma keeps_comp: "keeps sel f \<Longrightarrow> keeps sel g \<Longrightarrow> keeps sel (\<lambda>W. f (g W))"
  by (simp add: keeps_def)

lemma keeps_dep: "(\<And>v. keeps sel (f v)) \<Longrightarrow> keeps sel (\<lambda>W. f (h W) W)"
  by (simp add: keeps_def)

lemma keeps_id: "keeps sel (\<lambda>W. W)"
  by (simp add: keeps_def)

lemma mark_structures [simp]: "structures (markChunkForRebuild W a b) = structures W"
  by (simp add: markChunkForRebuild_def split: option.splits)

lemma markIf_structures [simp]: "structures (markIf b W a c) = structures W"
  by (simp add: markIf_def)

lemma setBlock_structures [simp]: "structures (World_setBlock W x y z t) = structures W"
  by (simp add: World_setBlock_def Let_def split: option.splits)

lemma setBlock_fractional_structures [simp]:
  "structures (World_setBlock_fractional W x y z t) = structures W"
  by (simp add: World_setBlock_fractional_def Let_def split: option.splits)

lemma keeps_place: "keeps (\<lambda>W. sel (structures W)) (place x y z t)"
  by (simp add: keeps_def place_def)

lemma keeps_placeNum: "keeps (\<lambda>W. sel (structures W)) (placeNum x y z t)"
  by (simp add: keeps_def placeNum_def)

lemma keeps_drawn: "keeps (\<lambda>W. sel (structures W)) drawn"
  by (simp add: keeps_def drawn_def)

lemma keeps_pushLoot: "keeps (\<lambda>W. generatedStructures (structures W)) (pushLoot chest)"
  by (simp add: keeps_def pushLoot_def)

lemma keeps_pushVillage: "keeps (\<lambda>W. generatedStructures (structures W)) (pushVillage v)"
  by (simp add: keeps_def pushVillage_def)

lemmas keeps_intros =
  keeps_doAll_Nil keeps_doAll_Cons keeps_forRange keeps_fold keeps_place keeps_placeNum
  keeps_drawn keeps_pushLoot keeps_pushVillage

lemma keeps_cond: "keeps sel f \<Longrightarrow> sel (if c then W else f W) = sel W"
  by (simp add: keeps_def)

lemma temple_keeps: "keeps keysOf (buildDesertTemple x y z)"
  unfolding buildDesertTemple_def Let_def by (intro keeps_intros)

lemma temple_keys: "keysOf (tryGenerateDesertTemple x z W) = keysOf W"
  by (simp add: tryGenerateDesertTemple_def Let_def keepsD [OF temple_keeps])

lemma hullRow_keeps: "keeps (\<lambda>W. sel (structures W)) (hullRow x y z dz)"
proof -
  have "keeps (\<lambda>W. sel (structures W))
          (\<lambda>W. if c then doAll [placeNum a b d PLANKS, placeNum a' b' d' PLANKS] W else W)"
    for c a b d a' b' d'
    by (cases c) (simp_all add: keeps_id keeps_doAll_Cons keeps_doAll_Nil keeps_placeNum)
  then show ?thesis
    unfolding hullRow_def Let_def
    by (intro keeps_fold keeps_doAll_Cons keeps_doAll_Nil keeps_placeNum)
qed

lemma shipwreck_keeps: "keeps keysOf (buildShipwreck x y z)"
  unfolding buildShipwreck_def Let_def by (intro keeps_intros hullRow_keeps)

lemma shipwreck_keys: "keysOf (tryGenerateShipwreck x z W) = keysOf W"
  by (simp add: tryGenerateShipwreck_def keepsD [OF shipwreck_keeps] split: prod.splits)

lemma portal_keeps: "keeps keysOf (buildRuinedPortal env x y z)"
proof -
  have "keeps keysOf (\<lambda>W. if nextRandom env W < 0.4 then place a b c t (drawn W) else drawn W)"
    for a b c t
    by (simp add: keeps_def place_def drawn_def)
  then show ?thesis
    unfolding buildRuinedPortal_def Let_def by (intro keeps_intros)
qed

lemma portal_keys: "keysOf (tryGenerateRuinedPortal env x z W) = keysOf W"
  by (simp add: tryGenerateRuinedPortal_def Let_def keepsD [OF portal_keeps])

lemma dungeon_keeps: "keeps keysOf (buildDungeon env x y z)"
proof -
  have a: "keeps keysOf (\<lambda>W. place a b c (if nextRandom env W < 0.5 then t else t') (drawn W))"
    for a b c t t'
    by (simp add: keeps_def place_def drawn_def)
  have b: "keeps keysOf (\<lambda>W. forRange 0 (h W) body W)" if "\<And>i. keeps keysOf (body i)" for h body
    using keeps_forRange [of keysOf body 0, OF that] by (simp add: keeps_def)
  show ?thesis
    unfolding buildDungeon_def Let_def by (intro keeps_intros a b)
qed

lemma dungeon_keys: "keysOf (tryGenerateDungeon env x z W) = keysOf W"
  by (simp add: tryGenerateDungeon_def Let_def keepsD [OF dungeon_keeps])

lemma well_keeps: "keeps keysOf (generateVillageWell x y z)"
  unfolding generateVillageWell_def Let_def by (intro keeps_intros)

lemma house_keeps: "keeps keysOf (generateVillageHouse x y z)"
  unfolding generateVillageHouse_def Let_def by (intro keeps_intros)

lemma farm_keeps: "keeps keysOf (generateVillageFarm x y z)"
  unfolding generateVillageFarm_def Let_def by (intro keeps_intros)

lemma church_keeps: "keeps keysOf (generateVillageChurch x y z)"
  unfolding generateVillageChurch_def Let_def by (intro keeps_intros)

lemma blacksmith_keeps: "keeps keysOf (generateVillageBlacksmith x y z)"
  unfolding generateVillageBlacksmith_def Let_def by (intro keeps_intros)

lemma villageBuilding_keys:
  "keysOf (fst (snd (villageBuilding env cX cZ gY ddx ddz bd st))) = keysOf (fst st)"
  by (simp add: villageBuilding_def Let_def keepsD [OF house_keeps] keepsD [OF farm_keeps]
      keepsD [OF church_keeps] keepsD [OF blacksmith_keeps])

lemma villageBuildings_keys:
  "keysOf (fst (villageBuildings env cX cZ gY ddx ddz pl bd st)) = keysOf (fst st)"
proof (induction env cX cZ gY ddx ddz pl bd st rule: villageBuildings.induct)
  case (1 env cX cZ gY ddx ddz pl bd st)
  show ?case
  proof (cases "bd < pl - 4")
    case False
    then show ?thesis by (subst villageBuildings.simps) simp
  next
    case True
    have "villageBuildings env cX cZ gY ddx ddz pl bd st
          = villageBuildings env cX cZ gY ddx ddz pl
              (fst (villageBuilding env cX cZ gY ddx ddz bd st))
              (snd (villageBuilding env cX cZ gY ddx ddz bd st))"
      using True by (subst villageBuildings.simps) simp
    then show ?thesis
      using 1 [OF True] by (simp add: villageBuilding_keys)
  qed
qed

lemma villagePathBlock_keeps: "keeps keysOf (villagePathBlock cX cZ gY ddx ddz i)"
  by (simp add: keeps_def villagePathBlock_def Let_def place_def)

lemma villagePath_keys:
  "keysOf (fst (villagePath env cX cZ gY dir st)) = keysOf (fst st)"
proof -
  have K: "keeps keysOf (forRange 1 pl (villagePathBlock cX cZ gY ddx ddz))" for pl ddx ddz
    by (intro keeps_forRange villagePathBlock_keeps)
  show ?thesis
    by (simp add: villagePath_def Let_def villageBuildings_keys keepsD [OF K])
qed

lemma village_keeps: "keeps keysOf (buildVillage env cX gY cZ)"
  by (simp add: keeps_def buildVillage_def Let_def keepsD [OF keeps_pushVillage]
      villagePath_keys keepsD [OF well_keeps])

lemma village_keys: "keysOf (tryGenerateVillage env x z W) = keysOf W"
  by (simp add: tryGenerateVillage_def Let_def keepsD [OF village_keeps])

lemma generateStructures_marks:
  "(chunkX c, chunkZ c) \<in> keysOf (generateStructures env c W)"
  by (simp add: generateStructures_def Let_def temple_keys shipwreck_keys portal_keys
      dungeon_keys village_keys)

text \<open>
  Claim C4. A second \<open>generateStructures\<close> for the same chunk coordinates, on any
  chunk object with those coordinates and whatever the random sources now give,
  returns the world it was given: no block is written and no loot or village record
  is added, for as long as the generator's key set lives.
\<close>

theorem generateStructures_idempotent:
  assumes "chunkX c' = chunkX c" and "chunkZ c' = chunkZ c"
  shows "generateStructures env' c' (generateStructures env c W) = generateStructures env c W"
  using generateStructures_marks [of c env W] assms
  by (simp add: generateStructures_def [of env' c'] Let_def)

theorem generateStructures_idempotent_witness:
  "chunkX (generatedEmptyChunk 3 3) = chunkX (newChunk 3 3)
   \<and> chunkZ (generatedEmptyChunk 3 3) = chunkZ (newChunk 3 3)
   \<and> generateStructures flatEnv (generatedEmptyChunk 3 3)
         (generateStructures flatEnv (newChunk 3 3) twoChunkWorld)
       = generateStructures flatEnv (newChunk 3 3) twoChunkWorld"
  using generateStructures_idempotent [of "generatedEmptyChunk 3 3" "newChunk 3 3" flatEnv flatEnv twoChunkWorld]
  by (simp add: generatedEmptyChunk_def newChunk_def)

section \<open>Blocks of a chunk\<close>

lemma index_inj:
  assumes "0 \<le> x" "x < 32" "0 \<le> z" "z < 32" "0 \<le> x'" "x' < 32" "0 \<le> z'" "z' < 32"
    and "getBlockIndex x y z = getBlockIndex x' y' z'"
  shows "x = x' \<and> y = y' \<and> z = z'"
proof -
  from assms(9) have e: "y * 1024 + z * 32 + x = y' * 1024 + z' * 32 + x'"
    by (simp add: getBlockIndex_def CHUNK_SIZE_def)
  have m: "(y * 1024 + z * 32 + x) mod 32 = x" if "0 \<le> x" "x < 32" for x y z :: int
  proof -
    have "y * 1024 + z * 32 + x = x + 32 * (y * 32 + z)" by simp
    then have "(y * 1024 + z * 32 + x) mod 32 = x mod 32" by (simp only: mod_mult_self2)
    then show ?thesis using that by simp
  qed
  from e have "(y * 1024 + z * 32 + x) mod 32 = (y' * 1024 + z' * 32 + x') mod 32" by simp
  then have x: "x = x'" using m [of x y z] m [of x' y' z'] assms by simp
  with e have "y * 32 + z = y' * 32 + z'" by simp
  then have "(y * 32 + z) mod 32 = (y' * 32 + z') mod 32" by simp
  moreover have "(y * 32 + z) mod 32 = z mod 32" "(y' * 32 + z') mod 32 = z' mod 32"
    by simp_all
  ultimately have z: "z = z'" using assms by simp
  with x e show ?thesis by simp
qed

lemma chunk_ok_setBlock [simp]: "chunk_ok (Chunk_setBlock c x y z t) = chunk_ok c"
  by (simp add: chunk_ok_def Chunk_setBlock_def)

lemma Chunk_getBlock_setBlock:
  assumes "chunk_ok c"
  shows "Chunk_getBlock (Chunk_setBlock c x y z t) x' y' z' =
           (if x' = x \<and> y' = y \<and> z' = z \<and> 0 \<le> x \<and> x < 32 \<and> 0 \<le> y \<and> y < 128 \<and> 0 \<le> z \<and> z < 32
            then t else Chunk_getBlock c x' y' z')"
proof (cases "0 \<le> x \<and> x < 32 \<and> 0 \<le> y \<and> y < 128 \<and> 0 \<le> z \<and> z < 32")
  case False
  then show ?thesis
    by (auto simp: Chunk_setBlock_def CHUNK_SIZE_def CHUNK_HEIGHT_def)
next
  case inr: True
  show ?thesis
  proof (cases "x' = x \<and> y' = y \<and> z' = z")
    case True
    then show ?thesis using inr assms by (simp add: Chunk_setBlock_getBlock_same)
  next
    case False
    show ?thesis
    proof (cases "0 \<le> x' \<and> x' < 32 \<and> 0 \<le> y' \<and> y' < 128 \<and> 0 \<le> z' \<and> z' < 32")
      case outr: False
      then show ?thesis
        by (auto simp: Chunk_getBlock_def CHUNK_SIZE_def CHUNK_HEIGHT_def)
    next
      case inr': True
      have "getBlockIndex x y z \<noteq> getBlockIndex x' y' z'"
        using index_inj [of x z x' z' y y'] inr inr' False by blast
      moreover have "0 \<le> getBlockIndex x y z" "0 \<le> getBlockIndex x' y' z'"
        using inr inr' by (simp_all add: getBlockIndex_def CHUNK_SIZE_def)
      ultimately have "nat (getBlockIndex x y z) \<noteq> nat (getBlockIndex x' y' z')"
        by simp
      then have "(blocks c)[nat (getBlockIndex x y z) := t] ! nat (getBlockIndex x' y' z')
                 = blocks c ! nat (getBlockIndex x' y' z')"
        by simp
      then show ?thesis
        using inr inr' False
        by (auto simp: Chunk_getBlock_def Chunk_setBlock_def CHUNK_SIZE_def CHUNK_HEIGHT_def)
    qed
  qed
qed



lemma newChunk_getBlock [simp]: "Chunk_getBlock (newChunk a b) x y z = AIR"
proof (cases "0 \<le> x \<and> x < 32 \<and> 0 \<le> y \<and> y < 128 \<and> 0 \<le> z \<and> z < 32")
  case True
  then have "nat (getBlockIndex x y z) < 131072"
    unfolding getBlockIndex_def CHUNK_SIZE_def by linarith
  then have "blocks (newChunk a b) ! nat (getBlockIndex x y z) = AIR"
    by (simp add: newChunk_def CHUNK_SIZE_def CHUNK_HEIGHT_def)
  then show ?thesis
    by (simp add: Chunk_getBlock_def)
next
  case False
  then show ?thesis
    by (auto simp: Chunk_getBlock_def CHUNK_SIZE_def CHUNK_HEIGHT_def)
qed

lemma generatedEmptyChunk_getBlock [simp]: "Chunk_getBlock (generatedEmptyChunk a b) x y z = AIR"
proof -
  have "Chunk_getBlock (generatedEmptyChunk a b) x y z = Chunk_getBlock (newChunk a b) x y z"
    by (simp add: Chunk_getBlock_def generatedEmptyChunk_def)
  then show ?thesis by simp
qed



section \<open>Shipwreck gating\<close>

lemma wreckColumn_blocks:
  "Chunk_getBlock wreckColumn 8 y 8 =
     (if y = 62 then WATER else if y = 61 then STONE
      else if 41 \<le> y \<and> y \<le> 50 then WATER else if y = 40 then STONE else AIR)"
  unfolding wreckColumn_def
  by (auto simp: Chunk_getBlock_setBlock; presburger)

lemma wreckWorld_blocks:
  "World_getBlock wreckWorld 8 y 8 =
     (if y = 62 then WATER else if y = 61 then STONE
      else if 41 \<le> y \<and> y \<le> 50 then WATER else if y = 40 then STONE else AIR)"
  using wreckColumn_blocks [of y]
  by (simp add: World_getBlock_def getChunk_def getChunkRef_def wreckWorld_def chunkCoord_div
      localCoord_mod wreckColumn_def)

lemma wreckWorld_scan: "shipScan wreckWorld 8 8 60 (-1) = (50, 40)"
  by (simp add: shipScan.simps wreckWorld_blocks)

lemma shallowColumn_blocks:
  "Chunk_getBlock shallowColumn 8 y 8 =
     (if 38 \<le> y \<and> y \<le> 40 then WATER else if y = 37 then STONE else AIR)"
  unfolding shallowColumn_def
  by (auto simp: Chunk_getBlock_setBlock; presburger)

lemma shallowWorld_blocks:
  "World_getBlock shallowWorld 8 y 8 =
     (if 38 \<le> y \<and> y \<le> 40 then WATER else if y = 37 then STONE else AIR)"
  using shallowColumn_blocks [of y]
  by (simp add: World_getBlock_def getChunk_def getChunkRef_def shallowWorld_def chunkCoord_div
      localCoord_mod shallowColumn_def)

lemma shipScan_no_water:
  "ws < 0 \<Longrightarrow> (\<And>y. 10 < y \<Longrightarrow> y \<le> ty \<Longrightarrow> World_getBlock W x y z \<noteq> WATER) \<Longrightarrow>
   shipScan W x z ty ws = (ws, -1)"
proof (induction W x z ty ws rule: shipScan.induct)
  case (1 W x z ty ws)
  show ?case
  proof (cases "ty > 10")
    case False
    then show ?thesis by (subst shipScan.simps) simp
  next
    case True
    have nw: "World_getBlock W x ty z \<noteq> WATER" using 1(3) True by simp
    have "shipScan W x z ty ws = shipScan W x z (ty - 1) ws"
      using True nw 1(2) by (subst shipScan.simps) (simp add: Let_def)
    also have "\<dots> = (ws, -1)"
      using 1(1) [OF True refl refl] nw 1(2,3) by (simp add: Let_def)
    finally show ?thesis .
  qed
qed

lemma shipScan_above_water:
  "ws < 0 \<Longrightarrow> t \<le> ty \<Longrightarrow> (\<And>y. t < y \<Longrightarrow> y \<le> ty \<Longrightarrow> World_getBlock W x y z \<noteq> WATER) \<Longrightarrow>
   shipScan W x z ty ws = shipScan W x z t ws"
proof (induction W x z ty ws rule: shipScan.induct)
  case (1 W x z ty ws)
  show ?case
  proof (cases "t = ty")
    case True
    then show ?thesis by simp
  next
    case False
    with 1(3) have lt: "t < ty" by simp
    show ?thesis
    proof (cases "ty > 10")
      case False
      then have "shipScan W x z ty ws = (ws, -1)" by (subst shipScan.simps) simp
      moreover from False lt have "shipScan W x z t ws = (ws, -1)" by (subst shipScan.simps) simp
      ultimately show ?thesis by simp
    next
      case True
      have nw: "World_getBlock W x ty z \<noteq> WATER" using 1(4) lt by simp
      have "shipScan W x z ty ws = shipScan W x z (ty - 1) ws"
        using True nw 1(2) by (subst shipScan.simps) (simp add: Let_def)
      also have "\<dots> = shipScan W x z t ws"
        using 1(1) [OF True refl refl] nw 1(2,4) lt by (simp add: Let_def)
      finally show ?thesis .
    qed
  qed
qed

lemma shipScan_in_water:
  "0 < ws \<Longrightarrow> f \<le> ty \<Longrightarrow>
   (\<And>y. f < y \<Longrightarrow> y \<le> ty \<Longrightarrow> World_getBlock W x y z = WATER \<or> World_getBlock W x y z = AIR) \<Longrightarrow>
   shipScan W x z ty ws = shipScan W x z f ws"
proof (induction W x z ty ws rule: shipScan.induct)
  case (1 W x z ty ws)
  show ?case
  proof (cases "f = ty")
    case True
    then show ?thesis by simp
  next
    case False
    with 1(3) have lt: "f < ty" by simp
    show ?thesis
    proof (cases "ty > 10")
      case False
      then have "shipScan W x z ty ws = (ws, -1)" by (subst shipScan.simps) simp
      moreover from False lt have "shipScan W x z f ws = (ws, -1)" by (subst shipScan.simps) simp
      ultimately show ?thesis by simp
    next
      case True
      have wa: "World_getBlock W x ty z = WATER \<or> World_getBlock W x ty z = AIR"
        using 1(4) lt by simp
      have "shipScan W x z ty ws = shipScan W x z (ty - 1) ws"
        using True wa 1(2) by (subst shipScan.simps) (auto simp: Let_def)
      also have "\<dots> = shipScan W x z f ws"
        using 1(1) [OF True refl refl] wa 1(2,4) lt by (auto simp: Let_def)
      finally show ?thesis .
    qed
  qed
qed

lemma shipScan_low: "ty \<le> 10 \<Longrightarrow> shipScan W x z ty ws = (ws, -1)"
  by (subst shipScan.simps) simp

lemma shipwreck_gate:
  assumes top: "World_getBlock W x t z = WATER" and "t \<le> 60"
    and above: "\<And>y. t < y \<Longrightarrow> y \<le> 60 \<Longrightarrow> World_getBlock W x y z \<noteq> WATER"
    and "f < t" and floor: "World_getBlock W x f z \<noteq> WATER" "World_getBlock W x f z \<noteq> AIR"
    and between: "\<And>y. f < y \<Longrightarrow> y < t \<Longrightarrow>
                    World_getBlock W x y z = WATER \<or> World_getBlock W x y z = AIR"
    and shallow: "t - f < 5"
  shows "tryGenerateShipwreck x z W = W"
proof (cases "t \<le> 10")
  case True
  have "shipScan W x z 60 (-1) = (-1, -1)"
    using above True by (intro shipScan_no_water) auto
  then show ?thesis by (simp add: tryGenerateShipwreck_def)
next
  case False
  then have t10: "10 < t" by simp
  have "shipScan W x z 60 (-1) = shipScan W x z t (-1)"
    using above assms(2) by (intro shipScan_above_water) auto
  also have "\<dots> = shipScan W x z (t - 1) t"
    using t10 top by (subst shipScan.simps) (simp add: Let_def)
  finally have s1: "shipScan W x z 60 (-1) = shipScan W x z (t - 1) t" .
  show ?thesis
  proof (cases "10 < f")
    case True
    have "shipScan W x z (t - 1) t = shipScan W x z f t"
      using between t10 assms(4) by (intro shipScan_in_water) auto
    also have "\<dots> = (t, f)"
      using True floor t10 by (subst shipScan.simps) (simp add: Let_def)
    finally show ?thesis
      using s1 shallow True t10 by (simp add: tryGenerateShipwreck_def)
  next
    case False
    have "shipScan W x z (t - 1) t = shipScan W x z 10 t"
      using between t10 False by (intro shipScan_in_water) auto
    also have "\<dots> = (t, -1)" by (rule shipScan_low) simp
    finally show ?thesis
      using s1 by (simp add: tryGenerateShipwreck_def)
  qed
qed

lemma buildShipwreck_structures:
  "structures (buildShipwreck x y z W) =
     (structures W)\<lparr>lootChests := lootChests (structures W) @ [shipwreckLoot x y z]\<rparr>"
proof -
  have K: "keeps structures (doAll
        [forRange (-6) 6 (hullRow x y z),
         forRange 1 5 (\<lambda>dy. place x (y + dy + 2) z WOOD),
         forRange (-1) 1 (\<lambda>dx. forRange (-1) 1 (\<lambda>dz. place (x + dx) (y + 8) (z + dz) PLANKS)),
         place x (y + 2) (z - 3) GOLD_ORE])"
    by (intro keeps_doAll_Cons keeps_doAll_Nil keeps_forRange
        keeps_place [where sel = "\<lambda>s. s"] hullRow_keeps [where sel = "\<lambda>s. s"])
  have "buildShipwreck x y z W = pushLoot (shipwreckLoot x y z) (doAll
        [forRange (-6) 6 (hullRow x y z),
         forRange 1 5 (\<lambda>dy. place x (y + dy + 2) z WOOD),
         forRange (-1) 1 (\<lambda>dx. forRange (-1) 1 (\<lambda>dz. place (x + dx) (y + 8) (z + dz) PLANKS)),
         place x (y + 2) (z - 3) GOLD_ORE] W)"
    by (simp add: buildShipwreck_def doAll_def)
  then show ?thesis
    using keepsD [OF K, of W] by (simp add: pushLoot_def)
qed

lemma wreckWorld_shipwreck:
  "lootChests (structures (tryGenerateShipwreck 8 8 wreckWorld)) = [shipwreckLoot 8 40 8]"
  by (simp add: tryGenerateShipwreck_def wreckWorld_scan buildShipwreck_structures)
     (simp add: wreckWorld_def newWorld_def)

text \<open>
  Claim C8, as the code has it. Let the topmost water block of the candidate column
  be at \<open>t\<close>, let the first block below it that is neither water nor air be at
  \<open>f\<close>, and let \<open>t - f < 5\<close>. If \<open>t\<close> is at most 60, the top of the scan, or if
  the column holds no water below \<open>f\<close> (a single water column), then
  \<open>tryGenerateShipwreck\<close> returns the world unchanged: no block is placed and no
  loot record is added.
\<close>

theorem shipwreck_needs_depth:
  assumes top: "World_getBlock W x t z = WATER"
    and above: "\<forall>y. t < y \<and> y \<le> 60 \<longrightarrow> World_getBlock W x y z \<noteq> WATER"
    and "f < t" and floor: "World_getBlock W x f z \<noteq> WATER" "World_getBlock W x f z \<noteq> AIR"
    and between: "\<forall>y. f < y \<and> y < t \<longrightarrow>
                    World_getBlock W x y z = WATER \<or> World_getBlock W x y z = AIR"
    and shallow: "t - f < 5"
    and window: "t \<le> 60 \<or> (\<forall>y. y < f \<longrightarrow> World_getBlock W x y z \<noteq> WATER)"
  shows "tryGenerateShipwreck x z W = W"
proof (cases "t \<le> 60")
  case True
  then show ?thesis
    using assms by (intro shipwreck_gate [of W x t z f]) auto
next
  case high: False
  with window have below: "\<And>y. y < f \<Longrightarrow> World_getBlock W x y z \<noteq> WATER" by auto
  define S where "S = {y. f < y \<and> y \<le> 60 \<and> World_getBlock W x y z = WATER}"
  show ?thesis
  proof (cases "S = {}")
    case True
    have "World_getBlock W x y z \<noteq> WATER" if "10 < y" "y \<le> 60" for y
    proof (cases "y < f")
      case True then show ?thesis using below by simp
    next
      case False
      show ?thesis
      proof (cases "y = f")
        case True then show ?thesis using floor by simp
      next
        case False
        with \<open>\<not> y < f\<close> have "f < y" by simp
        with that \<open>S = {}\<close> show ?thesis by (auto simp: S_def)
      qed
    qed
    then have "shipScan W x z 60 (-1) = (-1, -1)"
      by (intro shipScan_no_water) auto
    then show ?thesis by (simp add: tryGenerateShipwreck_def)
  next
    case False
    have fin: "finite S"
    proof (rule finite_subset)
      show "S \<subseteq> {f..60}" by (auto simp: S_def)
    qed simp
    define w where "w = Max S"
    have "w \<in> S" unfolding w_def using fin False by (rule Max_in)
    then have w: "f < w" "w \<le> 60" "World_getBlock W x w z = WATER" by (auto simp: S_def)
    have wmax: "World_getBlock W x y z \<noteq> WATER" if "w < y" "y \<le> 60" for y
    proof
      assume "World_getBlock W x y z = WATER"
      with that w(1) have "y \<in> S" by (simp add: S_def)
      then have "y \<le> w" unfolding w_def using fin by simp
      with that show False by simp
    qed
    have "w < t" using w(2) high by simp
    show ?thesis
    proof (rule shipwreck_gate [of W x w z f])
      show "World_getBlock W x w z = WATER" by (rule w(3))
      show "w \<le> 60" by (rule w(2))
      show "f < w" by (rule w(1))
      show "w - f < 5" using \<open>w < t\<close> shallow by simp
      show "World_getBlock W x f z \<noteq> WATER" "World_getBlock W x f z \<noteq> AIR" by (rule floor)+
      show "World_getBlock W x y z \<noteq> WATER" if "w < y" "y \<le> 60" for y using that by (rule wmax)
      show "World_getBlock W x y z = WATER \<or> World_getBlock W x y z = AIR" if "f < y" "y < w" for y
        using that between \<open>w < t\<close> by auto
    qed
  qed
qed

theorem shipwreck_needs_depth_witness:
  "World_getBlock shallowWorld 8 40 8 = WATER \<and> World_getBlock shallowWorld 8 37 8 = STONE
   \<and> tryGenerateShipwreck 8 8 shallowWorld = shallowWorld"
  using shipwreck_needs_depth [of shallowWorld 8 40 8 37]
  by (simp add: shallowWorld_blocks)

text \<open>
  Without the condition on the scan the claim fails: in \<open>wreckWorld\<close> the topmost
  water block is at 62 and the stone below it at 61, one apart, yet the scan, which
  starts at 60, finds the water at 50 over the stone at 40 and builds the wreck.
\<close>

theorem shipwreck_depth_counterexample:
  "World_getBlock wreckWorld 8 62 8 = WATER
   \<and> filter (\<lambda>y. World_getBlock wreckWorld 8 y 8 = WATER) [63..127] = []
   \<and> World_getBlock wreckWorld 8 61 8 = STONE
   \<and> lootChests (structures wreckWorld) = []
   \<and> lootChests (structures (tryGenerateShipwreck 8 8 wreckWorld)) = [shipwreckLoot 8 40 8]"
proof -
  have "lootChests (structures wreckWorld) = []"
    by (simp add: wreckWorld_def newWorld_def)
  then show ?thesis
    by (simp add: wreckWorld_blocks wreckWorld_shipwreck)
qed

section \<open>Terrain generation\<close>

lemma height_const: "noise2D env = (\<lambda>x z. - 1 / 2) \<Longrightarrow> getTerrainHeight env wx wz = 20"
  by (simp add: getTerrainHeight_def fbm2D_def eval_nat_numeral BASE_HEIGHT_def)

lemma biome_const: "noise2D env = (\<lambda>x z. - 1 / 2) \<Longrightarrow> getBiome env wx wz = ocean"
  by (simp add: getBiome_def fbm2D_def eval_nat_numeral)

lemma terrainBlock_counter: "y \<noteq> height \<Longrightarrow> snd (terrainBlock env wx wz height b y k) = k"
  by (simp add: terrainBlock_def Let_def)

lemma terrainBlock_ocean_surface:
  "0 < height \<Longrightarrow>
   terrainBlock env wx wz height ocean height k =
     ((if mathRandom env k < 0.3 then CLAY else GRAVEL), Suc k)"
  by (simp add: terrainBlock_def Let_def)

lemma holds_setBlock_other:
  "holds h B c \<Longrightarrow> (x, y, z) \<noteq> (0, h, 0) \<Longrightarrow> holds h B (Chunk_setBlock c x y z t)"
  by (auto simp: holds_def Chunk_getBlock_setBlock)

lemma Chunk_setBlock_coords [simp]:
  "chunkX (Chunk_setBlock c x y z t) = chunkX c" "chunkZ (Chunk_setBlock c x y z t) = chunkZ c"
  by (simp_all add: Chunk_setBlock_def)

lemma terrainColumn_other:
  assumes "holds h B (snd st)" "(x, z) \<noteq> (0, 0)"
  shows "holds h B (snd (terrainColumn env x z st))"
proof -
  have "holds h B (snd (fold (terrainCell env wx wz x z hh b) ys st))" for wx wz hh b ys
    using assms(1)
  proof (rule fold_invariant [where P = "\<lambda>s. holds h B (snd s)"])
    fix y and s :: GenState assume "holds h B (snd s)"
    then show "holds h B (snd (terrainCell env wx wz x z hh b y s))"
      using assms(2) by (simp add: terrainCell_def Let_def holds_setBlock_other)
  qed
  then show ?thesis
    by (simp add: terrainColumn_def Let_def)
qed

lemma terrainColumn_first:
  assumes ok: "chunk_ok c" and h: "h = getTerrainHeight env (chunkX c * 32) (chunkZ c * 32)"
    and rng: "0 < h" "h < 128" and bio: "getBiome env (chunkX c * 32) (chunkZ c * 32) = ocean"
  shows "holds h (if mathRandom env k < 0.3 then CLAY else GRAVEL) (snd (terrainColumn env 0 0 (k, c)))"
proof -
  let ?cell = "terrainCell env (chunkX c * 32) (chunkZ c * 32) 0 0 h ocean"
  let ?B = "if mathRandom env k < 0.3 then CLAY else GRAVEL"
  have split: "[0..127] = [0..h - 1] @ h # [h + 1..127]"
    using rng by (intro upto_split3) simp_all
  have below: "fst (fold ?cell [0..h - 1] (k, c)) = k \<and> chunk_ok (snd (fold ?cell [0..h - 1] (k, c)))"
  proof (rule fold_invariant [where P = "\<lambda>s. fst s = k \<and> chunk_ok (snd s)"])
    show "fst (k, c) = k \<and> chunk_ok (snd (k, c))" using ok by simp
  next
    fix y and s :: GenState assume "y \<in> set [0..h - 1]" "fst s = k \<and> chunk_ok (snd s)"
    then show "fst (?cell y s) = k \<and> chunk_ok (snd (?cell y s))"
      by (simp add: terrainCell_def Let_def terrainBlock_counter)
  qed
  define s1 where "s1 = fold ?cell [0..h - 1] (k, c)"
  have at: "holds h ?B (snd (?cell h s1))"
    using below rng
    by (simp add: s1_def [symmetric] terrainCell_def Let_def terrainBlock_ocean_surface holds_def
        Chunk_getBlock_setBlock)
  have above: "holds h ?B (snd (fold ?cell [h + 1..127] (?cell h s1)))"
    using at
  proof (rule fold_invariant [where P = "\<lambda>s. holds h ?B (snd s)"])
    fix y and s :: GenState assume "y \<in> set [h + 1..127]" "holds h ?B (snd s)"
    then show "holds h ?B (snd (?cell y s))"
      by (simp add: terrainCell_def Let_def holds_setBlock_other)
  qed
  show ?thesis
    using above
    by (simp add: terrainColumn_def Let_def CHUNK_SIZE_def CHUNK_HEIGHT_def h [symmetric] bio
        split s1_def)
qed

lemma first_pass:
  assumes ok: "chunk_ok c" and h: "h = getTerrainHeight env (chunkX c * 32) (chunkZ c * 32)"
    and rng: "0 < h" "h < 128" and bio: "getBiome env (chunkX c * 32) (chunkZ c * 32) = ocean"
  shows "holds h (if mathRandom env k < 0.3 then CLAY else GRAVEL)
           (snd (fold (\<lambda>x. fold (terrainColumn env x) [0..31]) [0..31] (k, c)))"
proof -
  let ?B = "if mathRandom env k < 0.3 then CLAY else GRAVEL"
  have e: "[0..31::int] = 0 # [1..31]" by (subst upto_rec1) simp_all
  have col: "holds h ?B (snd (terrainColumn env 0 0 (k, c)))"
    using assms by (rule terrainColumn_first)
  have row0: "holds h ?B (snd (fold (terrainColumn env 0) [1..31] (terrainColumn env 0 0 (k, c))))"
    using col
    by (rule fold_invariant [where P = "\<lambda>s. holds h ?B (snd s)"]) (simp add: terrainColumn_other)
  have rows: "holds h ?B (snd (fold (\<lambda>x. fold (terrainColumn env x) [0..31]) [1..31] s))"
    if "holds h ?B (snd s)" for s
    using that
  proof (rule fold_invariant [where P = "\<lambda>s. holds h ?B (snd s)"])
    fix x and s :: GenState assume x: "x \<in> set [1..31::int]" and s: "holds h ?B (snd s)"
    show "holds h ?B (snd (fold (terrainColumn env x) [0..31] s))"
      using s
      by (rule fold_invariant [where P = "\<lambda>s. holds h ?B (snd s)"])
         (use x in \<open>simp add: terrainColumn_other\<close>)
  qed
  show ?thesis
    by (subst e, simp only: fold_simps, subst e, simp only: fold_simps comp_def) (rule rows [OF row0])
qed

lemma leafCell_holds:
  "holds h B c \<Longrightarrow> B \<noteq> AIR \<Longrightarrow> holds h B (leafCell x ls z lx lz ly c)"
  by (auto simp: leafCell_def Let_def holds_def intro!: holds_setBlock_other [unfolded holds_def, THEN conjunct2]
      holds_setBlock_other [unfolded holds_def, THEN conjunct1])

lemma generateTree_holds:
  assumes "holds h B (snd st)" "B \<noteq> AIR" "x \<noteq> 0"
  shows "holds h B (snd (generateTree env x y z st))"
proof -
  have trunk: "holds h B (fold (\<lambda>ty c. if y + ty < CHUNK_HEIGHT then Chunk_setBlock c x (y + ty) z WOOD else c)
                 tys (snd st))" for tys
    using assms(1)
    by (rule fold_invariant [where P = "holds h B"]) (use assms(3) in \<open>simp add: holds_setBlock_other\<close>)
  have l1: "holds h B (fold (leafCell x ls z lx lz) lys c)" if "holds h B c" for ls lx lz lys c
    using that by (rule fold_invariant [where P = "holds h B"]) (simp add: leafCell_holds assms(2))
  have l2: "holds h B (fold (\<lambda>lz. fold (leafCell x ls z lx lz) lys) lzs c)" if "holds h B c" for ls lx lzs lys c
    using that by (rule fold_invariant [where P = "holds h B"]) (rule l1)
  have l3: "holds h B (fold (\<lambda>lx. fold (\<lambda>lz. fold (leafCell x ls z lx lz) lys) lzs) lxs c)"
    if "holds h B c" for ls lxs lzs lys c
    using that by (rule fold_invariant [where P = "holds h B"]) (rule l2)
  show ?thesis
    unfolding generateTree_def Let_def snd_conv by (rule l3 [OF trunk])
qed

lemma treeColumn_holds:
  assumes "holds h B (snd st)" "B \<noteq> AIR" "x \<noteq> 0"
  shows "holds h B (snd (treeColumn env x z st))"
  using assms by (simp add: treeColumn_def Let_def generateTree_holds)

lemma second_pass:
  assumes "holds h B (snd st)" "B \<noteq> AIR"
  shows "holds h B (snd (fold (\<lambda>x. fold (treeColumn env x) [2..29]) [2..29] st))"
  using assms(1)
proof (rule fold_invariant [where P = "\<lambda>s. holds h B (snd s)"])
  fix x and s :: GenState assume x: "x \<in> set [2..29::int]" and s: "holds h B (snd s)"
  from x have x0: "x \<noteq> 0" by auto
  show "holds h B (snd (fold (treeColumn env x) [2..29] s))"
    using s
  proof (rule fold_invariant [where P = "\<lambda>s. holds h B (snd s)"])
    fix z and s' :: GenState assume "holds h B (snd s')"
    then show "holds h B (snd (treeColumn env x z s'))"
      using assms(2) x0 by (rule treeColumn_holds)
  qed
qed

lemma generateChunk_ocean_corner:
  assumes ok: "chunk_ok c" and h: "h = getTerrainHeight env (chunkX c * 32) (chunkZ c * 32)"
    and rng: "0 < h" "h < 128" and bio: "getBiome env (chunkX c * 32) (chunkZ c * 32) = ocean"
  shows "Chunk_getBlock (snd (generateChunk env (k, c))) 0 h 0
           = (if mathRandom env k < 0.3 then CLAY else GRAVEL)"
proof -
  let ?B = "if mathRandom env k < 0.3 then CLAY else GRAVEL"
  have B: "?B \<noteq> AIR" by simp
  have "holds h ?B (snd (fold (\<lambda>x. fold (treeColumn env x) [2..29]) [2..29]
           (fold (\<lambda>x. fold (terrainColumn env x) [0..31]) [0..31] (k, c))))"
    using first_pass [OF assms] B by (rule second_pass)
  then have H: "Chunk_getBlock (snd (fold (\<lambda>x. fold (treeColumn env x) [2..29]) [2..29]
           (fold (\<lambda>x. fold (terrainColumn env x) [0..31]) [0..31] (k, c)))) 0 h 0 = ?B"
    by (simp only: holds_def)
  have e1: "CHUNK_SIZE - 1 = 31" "CHUNK_SIZE - 2 - 1 = 29"
    by (simp_all add: CHUNK_SIZE_def)
  have flags: "Chunk_getBlock (d\<lparr>isGenerated := True, needsRebuild := True\<rparr>) x y z = Chunk_getBlock d x y z"
    for d x y z
    by (simp add: Chunk_getBlock_def)
  show ?thesis
    unfolding generateChunk_def Let_def e1 snd_conv flags by (rule H)
qed

lemma newChunk_ok: "chunk_ok (newChunk a b)"
  by (simp add: chunk_ok_def newChunk_def)

text \<open>
  Claim C1 says that \<open>generateChunk\<close> is a function of the chunk coordinates and the
  seed alone. The seed fixes the noise fields, but the surface block of an ocean
  column is \<open>Math.random() < 0.3 ? CLAY : GRAVEL\<close>: with the same noise fields and
  the same fresh chunk (0, 0), a run in which \<open>Math.random()\<close> gives 0 and a run in
  which it gives 1/2 leave different blocks at local (0, 20, 0).
\<close>

theorem generateChunk_follows_Math_random:
  "noise2D clayEnv = noise2D gravelEnv \<and> noise3D clayEnv = noise3D gravelEnv
   \<and> caveNoise clayEnv = caveNoise gravelEnv \<and> caveNoise2 clayEnv = caveNoise2 gravelEnv
   \<and> ravinNoise clayEnv = ravinNoise gravelEnv \<and> treeNoise clayEnv = treeNoise gravelEnv
   \<and> Chunk_getBlock (snd (generateChunk clayEnv (0, newChunk 0 0))) 0 20 0 = CLAY
   \<and> Chunk_getBlock (snd (generateChunk gravelEnv (0, newChunk 0 0))) 0 20 0 = GRAVEL
   \<and> blocks (snd (generateChunk clayEnv (0, newChunk 0 0)))
       \<noteq> blocks (snd (generateChunk gravelEnv (0, newChunk 0 0)))"
proof -
  have n: "noise2D clayEnv = (\<lambda>x z. - 1 / 2)" "noise2D gravelEnv = (\<lambda>x z. - 1 / 2)"
    by (simp_all add: clayEnv_def gravelEnv_def oceanEnv_def)
  have a: "Chunk_getBlock (snd (generateChunk clayEnv (0, newChunk 0 0))) 0 20 0 = CLAY"
    using generateChunk_ocean_corner [of "newChunk 0 0" 20 clayEnv 0]
    by (simp add: newChunk_ok height_const [OF n(1)] biome_const [OF n(1)])
       (simp add: clayEnv_def)
  have b: "Chunk_getBlock (snd (generateChunk gravelEnv (0, newChunk 0 0))) 0 20 0 = GRAVEL"
    using generateChunk_ocean_corner [of "newChunk 0 0" 20 gravelEnv 0]
    by (simp add: newChunk_ok height_const [OF n(2)] biome_const [OF n(2)])
       (simp add: gravelEnv_def)
  have "blocks (snd (generateChunk clayEnv (0, newChunk 0 0)))
       \<noteq> blocks (snd (generateChunk gravelEnv (0, newChunk 0 0)))"
  proof
    assume "blocks (snd (generateChunk clayEnv (0, newChunk 0 0)))
       = blocks (snd (generateChunk gravelEnv (0, newChunk 0 0)))"
    then have "Chunk_getBlock (snd (generateChunk clayEnv (0, newChunk 0 0))) 0 20 0
             = Chunk_getBlock (snd (generateChunk gravelEnv (0, newChunk 0 0))) 0 20 0"
      by (simp add: Chunk_getBlock_def)
    with a b show False by simp
  qed
  with a b show ?thesis
    by (simp add: clayEnv_def gravelEnv_def)
qed

section \<open>Chunk streaming\<close>

declare drainRebuildQueue.simps [simp del]

lemma terrainColumn_coords:
  assumes "chunkX (snd st) = a \<and> chunkZ (snd st) = b"
  shows "chunkX (snd (terrainColumn env x z st)) = a \<and> chunkZ (snd (terrainColumn env x z st)) = b"
proof -
  have "chunkX (snd (fold (terrainCell env wx wz x z hh bi) ys st)) = a
      \<and> chunkZ (snd (fold (terrainCell env wx wz x z hh bi) ys st)) = b" for wx wz hh bi ys
    using assms
    by (rule fold_invariant [where P = "\<lambda>s. chunkX (snd s) = a \<and> chunkZ (snd s) = b"])
       (simp add: terrainCell_def Let_def)
  then show ?thesis
    by (simp add: terrainColumn_def Let_def)
qed

lemma leafCell_coords:
  "chunkX (leafCell x ls z lx lz ly c) = chunkX c \<and> chunkZ (leafCell x ls z lx lz ly c) = chunkZ c"
  by (simp add: leafCell_def Let_def)

lemma generateTree_coords:
  assumes "chunkX (snd st) = a \<and> chunkZ (snd st) = b"
  shows "chunkX (snd (generateTree env x y z st)) = a \<and> chunkZ (snd (generateTree env x y z st)) = b"
proof -
  let ?P = "\<lambda>c. chunkX c = a \<and> chunkZ c = b"
  have trunk: "?P (fold (\<lambda>ty c. if y + ty < CHUNK_HEIGHT then Chunk_setBlock c x (y + ty) z WOOD else c)
                 tys (snd st))" for tys
    using assms by (rule fold_invariant [where P = ?P]) simp
  have l1: "?P (fold (leafCell x ls z lx lz) lys c)" if "?P c" for ls lx lz lys c
    using that by (rule fold_invariant [where P = ?P]) (simp add: leafCell_coords)
  have l2: "?P (fold (\<lambda>lz. fold (leafCell x ls z lx lz) lys) lzs c)" if "?P c" for ls lx lzs lys c
    using that by (rule fold_invariant [where P = ?P]) (rule l1)
  have l3: "?P (fold (\<lambda>lx. fold (\<lambda>lz. fold (leafCell x ls z lx lz) lys) lzs) lxs c)"
    if "?P c" for ls lxs lzs lys c
    using that by (rule fold_invariant [where P = ?P]) (rule l2)
  show ?thesis
    unfolding generateTree_def Let_def snd_conv by (rule l3 [OF trunk])
qed

lemma treeColumn_coords:
  assumes "chunkX (snd st) = a \<and> chunkZ (snd st) = b"
  shows "chunkX (snd (treeColumn env x z st)) = a \<and> chunkZ (snd (treeColumn env x z st)) = b"
  using assms by (simp add: treeColumn_def Let_def generateTree_coords)

lemma generateChunk_coords:
  "chunkX (snd (generateChunk env st)) = chunkX (snd st)"
  "chunkZ (snd (generateChunk env st)) = chunkZ (snd st)"
proof -
  let ?P = "\<lambda>s :: GenState. chunkX (snd s) = chunkX (snd st) \<and> chunkZ (snd s) = chunkZ (snd st)"
  have two: "?P (fold (\<lambda>x. fold (f x) zs) xs s)"
    if s: "?P s" and f: "\<And>x z s. ?P s \<Longrightarrow> ?P (f x z s)" for f zs xs s
    using s
  proof (rule fold_invariant [where P = ?P])
    fix x and s' :: GenState assume "?P s'"
    then show "?P (fold (f x) zs s')"
      by (rule fold_invariant [where P = ?P]) (rule f)
  qed
  have "?P (fold (\<lambda>x. fold (treeColumn env x) zs') xs'
             (fold (\<lambda>x. fold (terrainColumn env x) zs) xs st))" for zs xs zs' xs'
    by (rule two, rule two, simp, erule terrainColumn_coords, erule treeColumn_coords)
  then show "chunkX (snd (generateChunk env st)) = chunkX (snd st)"
    "chunkZ (snd (generateChunk env st)) = chunkZ (snd st)"
    by (simp_all add: generateChunk_def Let_def)
qed

lemma generateChunk_flags:
  "isGenerated (snd (generateChunk env st))" "needsRebuild (snd (generateChunk env st))"
  by (simp_all add: generateChunk_def Let_def)

lemma getBlock_absent:
  "getChunkRef W (chunkCoord x) (chunkCoord z) = None \<Longrightarrow> World_getBlock W x y z = AIR"
  by (simp add: World_getBlock_def getChunk_def)

lemma scanDown_air:
  "(\<And>y. World_getBlock W x y z = AIR) \<Longrightarrow> \<not> p AIR \<Longrightarrow> scanDown W x z hi lo p dflt = dflt"
  by (simp add: scanDown_def find_None_iff[THEN iffD2])

lemma chunkCoord_inside: "0 \<le> k \<Longrightarrow> k < 32 \<Longrightarrow> chunkCoord (c * CHUNK_SIZE + k) = c"
  by (simp add: chunkCoord_div CHUNK_SIZE_def)

lemma generateStructures_absent:
  assumes "getChunkRef W (chunkX c) (chunkZ c) = None"
  shows "generateStructures env c W =
           W\<lparr>structures := (structures W)
               \<lparr>generatedStructures := insert (chunkX c, chunkZ c) (generatedStructures (structures W))\<rparr>\<rparr>"
proof (cases "(chunkX c, chunkZ c) \<in> generatedStructures (structures W)")
  case True
  then show ?thesis
    by (simp add: generateStructures_def insert_absorb)
next
  case False
  define W0 where "W0 = W\<lparr>structures := (structures W)
               \<lparr>generatedStructures := insert (chunkX c, chunkZ c) (generatedStructures (structures W))\<rparr>\<rparr>"
  have air: "World_getBlock W0 (chunkX c * CHUNK_SIZE + k) y (chunkZ c * CHUNK_SIZE + k) = AIR"
    if "0 \<le> k" "k < 32" for k y
    using assms that by (intro getBlock_absent) (simp add: chunkCoord_inside W0_def getChunkRef_def)
  have t: "tryGenerateDesertTemple (chunkX c * CHUNK_SIZE + 8) (chunkZ c * CHUNK_SIZE + 8) W0 = W0"
    by (simp add: tryGenerateDesertTemple_def scanDown_air air)
  have s: "tryGenerateShipwreck (chunkX c * CHUNK_SIZE + 8) (chunkZ c * CHUNK_SIZE + 8) W0 = W0"
    by (simp add: tryGenerateShipwreck_def shipScan_no_water air)
  have p: "tryGenerateRuinedPortal env (chunkX c * CHUNK_SIZE + 8) (chunkZ c * CHUNK_SIZE + 8) W0 = W0"
    by (simp add: tryGenerateRuinedPortal_def scanDown_air air notAirOrWater_def)
  have d: "tryGenerateDungeon env (chunkX c * CHUNK_SIZE + 8) (chunkZ c * CHUNK_SIZE + 8) W0 = W0"
    by (simp add: tryGenerateDungeon_def scanDown_air air)
  have v: "tryGenerateVillage env (chunkX c * CHUNK_SIZE) (chunkZ c * CHUNK_SIZE) W0 = W0"
    by (simp add: tryGenerateVillage_def Let_def scanDown_air air)
  show ?thesis
    using False
    by (simp add: generateStructures_def Let_def W0_def [symmetric] t s p d v)
qed


lemma newChunk_coords [simp]: "chunkX (newChunk x z) = x" "chunkZ (newChunk x z) = z"
  by (simp_all add: newChunk_def)

lemma createChunk_absent:
  assumes "map_of (chunks W) (x, z) = None"
  shows "createChunk env x z W =
     W\<lparr>objs := (objs W)(nextRef W :=
                 (if currentDimension W = end_dimension
                    then EndGenerator_generateChunk env (newChunk x z)
                  else snd (generateChunk env (randomCalls W, newChunk x z)))),
       nextRef := Suc (nextRef W),
       chunks := chunks W @ [((x, z), nextRef W)],
       chunksToRebuild := chunksToRebuild W @ [nextRef W],
       structures :=
         (if currentDimension W = end_dimension then structures W
          else (structures W)\<lparr>generatedStructures := insert (x, z) (generatedStructures (structures W))\<rparr>),
       randomCalls :=
         (if currentDimension W = end_dimension then randomCalls W
          else fst (generateChunk env (randomCalls W, newChunk x z)))\<rparr>"
proof (cases "currentDimension W = end_dimension")
  case True
  then show ?thesis
    by (simp add: createChunk_def Let_def)
next
  case False
  define g where "g = generateChunk env (randomCalls W, newChunk x z)"
  have c: "chunkX (snd g) = x" "chunkZ (snd g) = z"
    by (simp_all add: g_def generateChunk_coords)
  have gs: "generateStructures env (snd g) V =
           V\<lparr>structures := (structures V)
               \<lparr>generatedStructures := insert (x, z) (generatedStructures (structures V))\<rparr>\<rparr>"
    if "chunks V = chunks W" for V
    using generateStructures_absent [of V "snd g" env] assms that
    by (simp add: c getChunkRef_def)
  show ?thesis
    using False
    by (simp add: createChunk_def Let_def g_def [symmetric] gs)
qed

lemma EndGenerator_flags:
  "isGenerated (EndGenerator_generateChunk env c)" "needsRebuild (EndGenerator_generateChunk env c)"
  by (simp_all add: EndGenerator_generateChunk_def)

lemma generateLoop_fresh:
  "nextRef W \<le> nextRef (generateLoop env n W)
   \<and> set (chunks W) \<subseteq> set (chunks (generateLoop env n W))
   \<and> (\<forall>r. r < nextRef W \<longrightarrow> objs (generateLoop env n W) r = objs W r)
   \<and> (\<forall>r. nextRef W \<le> r \<and> r < nextRef (generateLoop env n W) \<longrightarrow>
          r \<in> snd ` set (chunks (generateLoop env n W))
          \<and> isGenerated (objs (generateLoop env n W) r)
          \<and> needsRebuild (objs (generateLoop env n W) r))"
proof (induction n arbitrary: W)
  case 0
  show ?case by auto
next
  case (Suc n)
  show ?case
  proof (cases "chunksToGenerate W")
    case Nil
    then show ?thesis by auto
  next
    case (Cons e rest)
    define W1 where "W1 = W\<lparr>chunksToGenerate := rest\<rparr>"
    define W2 where "W2 = (if map_of (chunks W1) (fst e, fst (snd e)) = None
                            then createChunk env (fst e) (fst (snd e)) W1 else W1)"
    have loop: "generateLoop env (Suc n) W = generateLoop env n W2"
      using Cons by (simp add: Let_def W1_def W2_def)
    have W1: "nextRef W1 = nextRef W" "chunks W1 = chunks W" "objs W1 = objs W"
      by (simp_all add: W1_def)
    have step: "nextRef W \<le> nextRef W2 \<and> set (chunks W) \<subseteq> set (chunks W2)
       \<and> (\<forall>r. r < nextRef W \<longrightarrow> objs W2 r = objs W r)
       \<and> (\<forall>r. nextRef W \<le> r \<and> r < nextRef W2 \<longrightarrow>
             r \<in> snd ` set (chunks W2) \<and> isGenerated (objs W2 r) \<and> needsRebuild (objs W2 r))"
    proof (cases "map_of (chunks W1) (fst e, fst (snd e)) = None")
      case False
      then show ?thesis by (auto simp: W2_def W1)
    next
      case True
      then have "W2 = createChunk env (fst e) (fst (snd e)) W1" by (simp add: W2_def)
      then show ?thesis
        by (simp add: createChunk_absent [OF True] W1 less_Suc_eq_le generateChunk_flags
            EndGenerator_flags) (auto simp: generateChunk_flags EndGenerator_flags)
    qed
    note IH = Suc.IH [of W2]
    show ?thesis
      unfolding loop
    proof (intro conjI allI impI)
      show "nextRef W \<le> nextRef (generateLoop env n W2)" using step IH by linarith
      show "set (chunks W) \<subseteq> set (chunks (generateLoop env n W2))" using step IH by blast
    next
      fix r assume "r < nextRef W"
      then show "objs (generateLoop env n W2) r = objs W r" using step IH by simp
    next
      fix r assume r: "nextRef W \<le> r \<and> r < nextRef (generateLoop env n W2)"
      show "r \<in> snd ` set (chunks (generateLoop env n W2))"
      proof (cases "r < nextRef W2")
        case True
        then have "r \<in> snd ` set (chunks W2)" using step r by simp
        then show ?thesis using IH by blast
      next
        case False then show ?thesis using IH r by simp
      qed
      show "isGenerated (objs (generateLoop env n W2) r)"
        using step IH r by (cases "r < nextRef W2") simp_all
      show "needsRebuild (objs (generateLoop env n W2) r)"
        using step IH r by (cases "r < nextRef W2") simp_all
    qed
  qed
qed

lemma buildMesh_fst:
  "fst (buildMesh c nb) = c\<lparr>torchPositions := torchList c, needsRebuild := False\<rparr>"
  by (simp add: buildMesh_def Let_def meshBuffers_torches torchList_def)

lemma rebuildChunkMesh_eq:
  "rebuildChunkMesh r W =
     W\<lparr>objs := (objs W)(r := (objs W r)\<lparr>torchPositions := torchList (objs W r), needsRebuild := False\<rparr>)\<rparr>"
  by (simp add: rebuildChunkMesh_def buildMesh_fst)

lemma length_filter_mono:
  "(\<And>x. P x \<Longrightarrow> Q x) \<Longrightarrow> length (filter P xs) \<le> length (filter Q xs)"
  by (induction xs) auto

lemma rebuildResident_budget:
  assumes "n + length (filter (\<lambda>r. needsRebuild (objs W r) \<and> isGenerated (objs W r)) rs) \<le> 4"
  shows "chunks (snd (fold rebuildResident rs (n, W))) = chunks W
     \<and> chunksToRebuild (snd (fold rebuildResident rs (n, W))) = chunksToRebuild W
     \<and> (\<forall>q. isGenerated (objs (snd (fold rebuildResident rs (n, W))) q) = isGenerated (objs W q))
     \<and> (\<forall>q. needsRebuild (objs (snd (fold rebuildResident rs (n, W))) q) \<longrightarrow> needsRebuild (objs W q))
     \<and> (\<forall>q \<in> set rs. isGenerated (objs W q) \<longrightarrow>
            \<not> needsRebuild (objs (snd (fold rebuildResident rs (n, W))) q))"
  using assms
proof (induction rs arbitrary: n W)
  case Nil
  show ?case by simp
next
  case (Cons r rs)
  let ?dirty = "\<lambda>W r. needsRebuild (objs W r) \<and> isGenerated (objs W r)"
  show ?case
  proof (cases "?dirty W r")
    case False
    then have st: "rebuildResident r (n, W) = (n, W)"
      by (auto simp: rebuildResident_def Let_def)
    have "n + length (filter (?dirty W) rs) \<le> 4" using Cons.prems False by simp
    from Cons.IH [OF this] False show ?thesis
      by (simp add: st) blast
  next
    case True
    then have n: "n < 4" using Cons.prems by simp
    define W' where "W' = rebuildChunkMesh r W"
    have st: "rebuildResident r (n, W) = (Suc n, W')"
      using True n by (simp add: rebuildResident_def Let_def W'_def)
    have W': "chunks W' = chunks W" "chunksToRebuild W' = chunksToRebuild W"
      "\<And>q. isGenerated (objs W' q) = isGenerated (objs W q)"
      "\<And>q. needsRebuild (objs W' q) \<Longrightarrow> needsRebuild (objs W q)"
      "\<not> needsRebuild (objs W' r)"
      by (simp_all add: W'_def rebuildChunkMesh_eq split: if_splits)
    have "length (filter (?dirty W') rs) \<le> length (filter (?dirty W) rs)"
      by (rule length_filter_mono) (use W' in auto)
    then have "Suc n + length (filter (?dirty W') rs) \<le> 4" using Cons.prems True by simp
    from Cons.IH [OF this] show ?thesis
      using W' by (simp add: st) blast
  qed
qed

lemma drainRebuildQueue_frame:
  "chunks (snd (drainRebuildQueue st)) = chunks (snd st)
   \<and> (\<forall>q. isGenerated (objs (snd (drainRebuildQueue st)) q) = isGenerated (objs (snd st) q))
   \<and> (\<forall>q. needsRebuild (objs (snd (drainRebuildQueue st)) q) \<longrightarrow> needsRebuild (objs (snd st) q))"
proof (induction st rule: drainRebuildQueue.induct)
  case (1 st)
  define W where "W = snd st"
  define n where "n = fst st"
  define r where "r = hd (chunksToRebuild W)"
  define W1 where "W1 = W\<lparr>chunksToRebuild := tl (chunksToRebuild W)\<rparr>"
  show ?case
  proof (cases "chunksToRebuild W \<noteq> [] \<and> n < 4")
    case False
    then have "drainRebuildQueue st = st"
      by (subst drainRebuildQueue.simps) (auto simp: Let_def W_def n_def)
    then show ?thesis by simp
  next
    case go: True
    show ?thesis
    proof (cases "needsRebuild (objs W1 r)")
      case True
      have e: "drainRebuildQueue st = drainRebuildQueue (Suc n, rebuildChunkMesh r W1)"
        using go True
        by (subst drainRebuildQueue.simps) (simp add: Let_def W_def n_def r_def W1_def)
      have IH: "chunks (snd (drainRebuildQueue (Suc n, rebuildChunkMesh r W1))) = chunks (rebuildChunkMesh r W1)
         \<and> (\<forall>q. isGenerated (objs (snd (drainRebuildQueue (Suc n, rebuildChunkMesh r W1))) q)
                = isGenerated (objs (rebuildChunkMesh r W1) q))
         \<and> (\<forall>q. needsRebuild (objs (snd (drainRebuildQueue (Suc n, rebuildChunkMesh r W1))) q)
                \<longrightarrow> needsRebuild (objs (rebuildChunkMesh r W1) q))"
        using 1(1) [OF refl refl refl _ refl refl] go True
        by (simp add: W_def n_def r_def W1_def)
      show ?thesis
        unfolding e using IH
        by (auto simp: rebuildChunkMesh_eq W1_def W_def split: if_splits)
    next
      case False
      have e: "drainRebuildQueue st = drainRebuildQueue (n, W1)"
        using go False
        by (subst drainRebuildQueue.simps) (simp add: Let_def W_def n_def r_def W1_def)
      have IH: "chunks (snd (drainRebuildQueue (n, W1))) = chunks W1
         \<and> (\<forall>q. isGenerated (objs (snd (drainRebuildQueue (n, W1))) q) = isGenerated (objs W1 q))
         \<and> (\<forall>q. needsRebuild (objs (snd (drainRebuildQueue (n, W1))) q) \<longrightarrow> needsRebuild (objs W1 q))"
        using 1(2) [OF refl refl refl _ refl refl] go False
        by (simp add: W_def n_def r_def W1_def)
      show ?thesis
        unfolding e using IH by (simp add: W1_def W_def)
    qed
  qed
qed

lemma rebuildMeshes_chunks: "chunks (rebuildMeshes W) = chunks W"
proof -
  have "chunks (snd (fold rebuildResident rs st)) = chunks (snd st)" for rs st
    by (rule fold_invariant [where P = "\<lambda>s. chunks (snd s) = chunks (snd st)"])
       (simp_all add: rebuildResident_def Let_def rebuildChunkMesh_eq)
  then show ?thesis
    by (simp add: rebuildMeshes_def drainRebuildQueue_frame)
qed

lemma rebuildMeshes_budget:
  assumes "length (filter (\<lambda>r. needsRebuild (objs W r) \<and> isGenerated (objs W r)) (map snd (chunks W))) \<le> 4"
    and "r \<in> snd ` set (chunks W)" and "isGenerated (objs W r)"
  shows "\<not> needsRebuild (objs (rebuildMeshes W) r)"
proof -
  have "0 + length (filter (\<lambda>r. needsRebuild (objs W r) \<and> isGenerated (objs W r)) (map snd (chunks W))) \<le> 4"
    using assms(1) by simp
  from rebuildResident_budget [OF this]
  have "\<forall>q \<in> set (map snd (chunks W)). isGenerated (objs W q) \<longrightarrow>
            \<not> needsRebuild (objs (snd (fold rebuildResident (map snd (chunks W)) (0, W))) q)"
    by blast
  then have "\<not> needsRebuild (objs (snd (fold rebuildResident (map snd (chunks W)) (0, W))) r)"
    using assms(2,3) by auto
  moreover have "needsRebuild (objs (rebuildMeshes W) r) \<longrightarrow>
      needsRebuild (objs (snd (fold rebuildResident (map snd (chunks W)) (0, W))) r)"
    using drainRebuildQueue_frame [of "fold rebuildResident (map snd (chunks W)) (0, W)"]
    unfolding rebuildMeshes_def by blast
  ultimately show ?thesis by blast
qed

lemma unloadDistant_objs: "objs (unloadDistant px pz W) = objs W"
  by (simp add: unloadDistant_def Let_def)

lemma queue_fold:
  "fold (\<lambda>x W'. if map_of (chunks W') (k x) = None
                  then W'\<lparr>chunksToGenerate := chunksToGenerate W' @ [e x]\<rparr> else W') xs s
   = s\<lparr>chunksToGenerate := chunksToGenerate s
         @ concat (map (\<lambda>x. if map_of (chunks s) (k x) = None then [e x] else []) xs)\<rparr>"
  by (induction xs arbitrary: s) simp_all

lemma queue_fold2:
  "fold (\<lambda>x. fold (\<lambda>z W'. if map_of (chunks W') (k x z) = None
                  then W'\<lparr>chunksToGenerate := chunksToGenerate W' @ [e x z]\<rparr> else W') zs) xs s
   = s\<lparr>chunksToGenerate := chunksToGenerate s
         @ concat (map (\<lambda>x. concat (map (\<lambda>z. if map_of (chunks s) (k x z) = None then [e x z] else [])
                                        zs)) xs)\<rparr>"
  by (induction xs arbitrary: s) (simp_all add: queue_fold)

lemma queueMissing_eq:
  "queueMissing playerX playerZ W =
     W\<lparr>chunksToGenerate := chunksToGenerate W @
        concat (map (\<lambda>dx. concat (map (\<lambda>dz.
            if map_of (chunks W) (\<lfloor>playerX / real_of_int CHUNK_SIZE\<rfloor> + dx,
                                  \<lfloor>playerZ / real_of_int CHUNK_SIZE\<rfloor> + dz) = None
              then [(\<lfloor>playerX / real_of_int CHUNK_SIZE\<rfloor> + dx,
                     \<lfloor>playerZ / real_of_int CHUNK_SIZE\<rfloor> + dz,
                     sqrt (real_of_int (dx * dx + dz * dz)))]
            else [])
          [- renderDistance W..renderDistance W])) [- renderDistance W..renderDistance W])\<rparr>"
  unfolding queueMissing_def Let_def forRange_def
  by (rule queue_fold2)

lemma drain_done:
  "chunksToRebuild W = [] \<or> \<not> n < 4 \<Longrightarrow> drainRebuildQueue (n, W) = (n, W)"
  by (subst drainRebuildQueue.simps) (auto simp: Let_def)

lemma drain_dirty:
  "chunksToRebuild W \<noteq> [] \<Longrightarrow> n < 4 \<Longrightarrow> needsRebuild (objs W (hd (chunksToRebuild W))) \<Longrightarrow>
   drainRebuildQueue (n, W) =
     drainRebuildQueue (Suc n, rebuildChunkMesh (hd (chunksToRebuild W))
                                 (W\<lparr>chunksToRebuild := tl (chunksToRebuild W)\<rparr>))"
  by (subst drainRebuildQueue.simps) (simp add: Let_def)

lemma drain_clean:
  "chunksToRebuild W \<noteq> [] \<Longrightarrow> n < 4 \<Longrightarrow> \<not> needsRebuild (objs W (hd (chunksToRebuild W))) \<Longrightarrow>
   drainRebuildQueue (n, W) = drainRebuildQueue (n, W\<lparr>chunksToRebuild := tl (chunksToRebuild W)\<rparr>)"
  by (subst drainRebuildQueue.simps) (simp add: Let_def)

lemma sqrt_gt_int: "0 \<le> b \<Longrightarrow> (b < sqrt a) = (b * b < a)"
  by (metis abs_of_nonneg real_sqrt_abs2 real_sqrt_less_iff)

lemmas tick_simps =
  updateChunks_def queueMissing_eq Let_def upto.simps CHUNK_SIZE_def
  sortQueue_def generateQueued_def numeral_2_eq_2 createChunk_absent
  rebuildMeshes_def rebuildResident_def rebuildChunkMesh_eq generateChunk_flags
  generateChunk_coords drain_done drain_dirty drain_clean unloadDistant_def sqrt_gt_int


lemmas edit_simps =
  World_setBlock_def chunkCoord_div localCoord_mod getChunkRef_def markChunkForRebuild_def
  Chunk_setBlock_def CHUNK_HEIGHT_def

text \<open>
  Claim C9. One call of \<open>updateChunks\<close> runs the generation loop (terrain, then
  structures, for at most two queued chunks), then the two rebuild loops, then the
  unload loop, in this order. Every chunk object made in the call is in the map,
  generated and flagged for rebuild when generation ends. The rebuild loops leave the
  map as it is; the unload loop writes no block, flag or torch list of any chunk and
  only removes entries. A chunk made in the call is meshed in the same call, before
  the unload loop can remove it, when at most four chunks of the map are generated and
  flagged once generation ends: four is \<open>rebuildsPerFrame\<close>, the budget the two
  rebuild loops share.
\<close>

theorem updateChunks_generate_mesh_evict:
  "let G = generateQueued env (sortQueue (queueMissing playerX playerZ W));
       M = rebuildMeshes G
   in updateChunks env playerX playerZ W = unloadDistant playerX playerZ M
      \<and> (\<forall>r. nextRef W \<le> r \<and> r < nextRef G \<longrightarrow>
             r \<in> snd ` set (chunks G) \<and> isGenerated (objs G r) \<and> needsRebuild (objs G r))
      \<and> chunks M = chunks G
      \<and> objs (unloadDistant playerX playerZ M) = objs M
      \<and> set (chunks (unloadDistant playerX playerZ M)) \<subseteq> set (chunks M)
      \<and> (length (filter (\<lambda>r. needsRebuild (objs G r) \<and> isGenerated (objs G r)) (map snd (chunks G))) \<le> 4
           \<longrightarrow> (\<forall>r. nextRef W \<le> r \<and> r < nextRef G \<longrightarrow> \<not> needsRebuild (objs M r)))"
proof -
  define Q where "Q = sortQueue (queueMissing playerX playerZ W)"
  define G where "G = generateQueued env Q"
  have "keeps nextRef (forRange a b (\<lambda>dx. forRange a' b' (\<lambda>dz W'.
            if c dx dz W' then W'\<lparr>chunksToGenerate := f dx dz W'\<rparr> else W')))" for a b a' b' c f
    by (intro keeps_forRange) (simp add: keeps_def)
  then have q: "nextRef (queueMissing playerX playerZ W) = nextRef W"
    unfolding queueMissing_def Let_def by (rule keepsD)
  have Q: "nextRef Q = nextRef W"
    by (simp add: Q_def sortQueue_def q)
  have fresh: "\<forall>r. nextRef W \<le> r \<and> r < nextRef G \<longrightarrow>
             r \<in> snd ` set (chunks G) \<and> isGenerated (objs G r) \<and> needsRebuild (objs G r)"
    using generateLoop_fresh [of Q env 2] by (simp add: G_def generateQueued_def Q)
  have budget: "\<not> needsRebuild (objs (rebuildMeshes G) r)"
    if "length (filter (\<lambda>r. needsRebuild (objs G r) \<and> isGenerated (objs G r)) (map snd (chunks G))) \<le> 4"
      and "nextRef W \<le> r \<and> r < nextRef G" for r
    using rebuildMeshes_budget [OF that(1)] fresh that(2) by blast
  have sub: "set (chunks (unloadDistant playerX playerZ V)) \<subseteq> set (chunks V)" for V
    by (simp add: unloadDistant_def Let_def)
  have upd: "updateChunks env playerX playerZ W = unloadDistant playerX playerZ (rebuildMeshes G)"
    by (simp add: updateChunks_def Q_def G_def)
  have bud: "length (filter (\<lambda>r. needsRebuild (objs G r) \<and> isGenerated (objs G r)) (map snd (chunks G))) \<le> 4
           \<longrightarrow> (\<forall>r. nextRef W \<le> r \<and> r < nextRef G \<longrightarrow> \<not> needsRebuild (objs (rebuildMeshes G) r))"
    using budget by blast
  show ?thesis
    unfolding Let_def Q_def [symmetric] G_def [symmetric]
    by (intro conjI upd fresh rebuildMeshes_chunks unloadDistant_objs sub bud)
qed

theorem updateChunks_generate_mesh_evict_witness:
  "let G = generateQueued flatEnv (sortQueue (queueMissing 0 0 (newWorld 1)));
       M = rebuildMeshes G
   in nextRef (newWorld 1) \<le> 1 \<and> 1 < nextRef G
      \<and> length (filter (\<lambda>r. needsRebuild (objs G r) \<and> isGenerated (objs G r)) (map snd (chunks G))) \<le> 4
      \<and> 1 \<in> snd ` set (chunks G) \<and> isGenerated (objs G 1) \<and> needsRebuild (objs G 1)
      \<and> chunks M = chunks G
      \<and> \<not> needsRebuild (objs M 1)"
proof -
  define G where "G = generateQueued flatEnv (sortQueue (queueMissing 0 0 (newWorld 1)))"
  have a: "nextRef (newWorld 1) \<le> 1 \<and> 1 < nextRef G"
    by (simp add: G_def tick_simps newWorld_def)
  have b: "length (filter (\<lambda>r. needsRebuild (objs G r) \<and> isGenerated (objs G r)) (map snd (chunks G))) \<le> 4"
    by (simp add: G_def tick_simps newWorld_def)
  show ?thesis
    using updateChunks_generate_mesh_evict [of flatEnv 0 0 "newWorld 1"] a b
    unfolding Let_def G_def [symmetric] by blast
qed

text \<open>
  Without the bound the last part of the claim fails. In \<open>editedWorld\<close> the chunks
  (0, 0), (-1, 0), (0, -1) and (0, 1) are resident, the first three flagged by the edit
  at the corner block, and the generation queue still holds (1, 0) with priority 1. A
  call with the player at \<open>x = 320\<close> generates chunk (10, 0) and then the queued chunk
  (1, 0), whose object gets reference 5. The first rebuild loop meshes the three
  flagged chunks and chunk (10, 0), which uses up the budget; the object of chunk
  (1, 0) leaves the rebuild loops as generation left it, still flagged. The unload
  loop then deletes chunk (1, 0) from the map, nine chunks away from the player.
\<close>

theorem updateChunks_evicts_unmeshed_counterexample:
  "let G = generateQueued flatEnv (sortQueue (queueMissing 320 0 editedWorld));
       M = rebuildMeshes G
   in nextRef editedWorld = 4 \<and> nextRef G = 6 \<and> getChunkRef G 1 0 = Some 5
      \<and> isGenerated (objs G 5) \<and> needsRebuild (objs G 5)
      \<and> length (filter (\<lambda>r. needsRebuild (objs G r) \<and> isGenerated (objs G r)) (map snd (chunks G))) = 5
      \<and> objs M 5 = objs G 5
      \<and> updateChunks flatEnv 320 0 editedWorld = unloadDistant 320 0 M
      \<and> needsRebuild (objs (updateChunks flatEnv 320 0 editedWorld) 5)
      \<and> getChunkRef (updateChunks flatEnv 320 0 editedWorld) 1 0 = None
      \<and> 5 \<notin> snd ` set (chunks (updateChunks flatEnv 320 0 editedWorld))"
  by (simp add: editedWorld_def tick_simps edit_simps newWorld_def eval_nat_numeral)

end
